theory Spec2Isabelle
  imports Complex_Main "HOL-Library.AList"
begin

section \<open>Python values used by the rate service\<close>

text \<open>
  Strings are ASCII character lists. The Russian message literals of the source are
  rendered by English ASCII text of the same structure.
\<close>

definition ascii_lowercase :: string where
  "ascii_lowercase = ''abcdefghijklmnopqrstuvwxyz''"

definition ascii_uppercase :: string where
  "ascii_uppercase = ''ABCDEFGHIJKLMNOPQRSTUVWXYZ''"

definition upper_char :: "char \<Rightarrow> char" where
  "upper_char c =
     (case map_of (zip ascii_lowercase ascii_uppercase) c of Some u \<Rightarrow> u | None \<Rightarrow> c)"

definition lower_char :: "char \<Rightarrow> char" where
  "lower_char c =
     (case map_of (zip ascii_uppercase ascii_lowercase) c of Some l \<Rightarrow> l | None \<Rightarrow> c)"

text \<open>\<^verbatim>\<open>s.upper()\<close> and \<^verbatim>\<open>s.lower()\<close>.\<close>

definition str_upper :: "string \<Rightarrow> string" where
  "str_upper s = map upper_char s"

definition str_lower :: "string \<Rightarrow> string" where
  "str_lower s = map lower_char s"

text \<open>\<^verbatim>\<open>s.strip()\<close>: leading and trailing ASCII whitespace is removed.\<close>

definition whitespace :: "char list" where
  "whitespace =
     [CHR '' '', CHR 0x09, CHR 0x0A, CHR 0x0B, CHR 0x0C, CHR 0x0D,
      CHR 0x1C, CHR 0x1D, CHR 0x1E, CHR 0x1F]"

definition str_strip :: "string \<Rightarrow> string" where
  "str_strip s =
     rev (dropWhile (\<lambda>c. c \<in> set whitespace) (rev (dropWhile (\<lambda>c. c \<in> set whitespace) s)))"

text \<open>\<^verbatim>\<open>s.replace(ch, "")\<close> and \<^verbatim>\<open>s.replace(ch, t)\<close> for a one-character pattern.\<close>

definition str_remove :: "char \<Rightarrow> string \<Rightarrow> string" where
  "str_remove ch s = filter (\<lambda>c. c \<noteq> ch) s"

definition str_replace :: "char \<Rightarrow> string \<Rightarrow> string \<Rightarrow> string" where
  "str_replace ch t s = concat (map (\<lambda>c. if c = ch then t else [c]) s)"

text \<open>\<^verbatim>\<open>s.split(sep)\<close> for a one-character separator.\<close>

fun str_split :: "char \<Rightarrow> string \<Rightarrow> string list" where
  "str_split sep [] = [[]]"
| "str_split sep (c # cs) =
     (if c = sep then [] # str_split sep cs
      else (case str_split sep cs of
              [] \<Rightarrow> [[c]]
            | p # ps \<Rightarrow> (c # p) # ps))"

datatype error =
    ValidationError string
  | CurrencyNotFoundError string
  | ApiRequestError string
  | ZeroDivisionError
  | OverflowError
  | TypeError
  | OSError string

text \<open>
  Numbers. A rate read from JSON or returned by a client is a Python number: an int or a
  float, the infinities and NaN included. The model keeps the numbers abstract, as the
  values of a type \<open>'n\<close>, and takes Python's operations on them as parameters: the
  literal \<^verbatim>\<open>1.0\<close>, the test \<^verbatim>\<open>x == 0\<close>, and the division \<^verbatim>\<open>a / b\<close> by a divisor
  that is not zero. That division rounds; its result may underflow to zero or be an
  infinity, and it raises \<^verbatim>\<open>OverflowError\<close> for an int beyond the float range.
\<close>

record 'n pynum =
  float_one :: 'n
  is_zero :: "'n \<Rightarrow> bool"
  div_nonzero :: "'n \<Rightarrow> 'n \<Rightarrow> error + 'n"

text \<open>\<^verbatim>\<open>a / b\<close>, which raises on a zero divisor.\<close>

definition truediv :: "'n pynum \<Rightarrow> 'n \<Rightarrow> 'n \<Rightarrow> error + 'n" where
  "truediv num a b = (if is_zero num b then Inl ZeroDivisionError else div_nonzero num a b)"

text \<open>
  The truth value of an optional number: \<^verbatim>\<open>None\<close> and zero are false. For a number
  the tests \<^verbatim>\<open>if x\<close> and \<^verbatim>\<open>x != 0\<close> agree.
\<close>

definition truthy :: "'n pynum \<Rightarrow> 'n option \<Rightarrow> bool" where
  "truthy num x = (case x of None \<Rightarrow> False | Some r \<Rightarrow> \<not> is_zero num r)"

text \<open>
  Time. A \<^verbatim>\<open>datetime\<close> is timezone-naive or timezone-aware; either way the model keeps
  its instant in microseconds. The difference of two datetimes of the same kind is a
  \<^verbatim>\<open>timedelta\<close>, a number of microseconds; Python refuses to subtract a naive and an
  aware datetime. The library functions are parameters: \<^verbatim>\<open>datetime.fromisoformat\<close>
  (\<open>None\<close> for its \<^verbatim>\<open>ValueError\<close>), \<^verbatim>\<open>datetime.isoformat\<close>,
  \<^verbatim>\<open>timedelta.total_seconds\<close>, and the float product.
\<close>

datatype datetime = Naive int | Aware int

record pylib =
  fromisoformat :: "string \<Rightarrow> datetime option"
  isoformat :: "datetime \<Rightarrow> string"
  total_seconds :: "int \<Rightarrow> real"
  float_mul :: "real \<Rightarrow> real \<Rightarrow> real"

definition datetime_sub :: "datetime \<Rightarrow> datetime \<Rightarrow> error + int" where
  "datetime_sub a b =
     (case (a, b) of
        (Naive x, Naive y) \<Rightarrow> Inr (x - y)
      | (Aware x, Aware y) \<Rightarrow> Inr (x - y)
      | _ \<Rightarrow> Inl TypeError)"

text \<open>\<^verbatim>\<open>int(x)\<close> of a float: truncation towards zero.\<close>

definition py_int :: "real \<Rightarrow> int" where
  "py_int x = (if x < 0 then \<lceil>x\<rceil> else \<lfloor>x\<rfloor>)"

section \<open>core/utils.py and core/currencies.py\<close>

text \<open>
  \<^verbatim>\<open>validate_currency_code\<close>: the regular expression \<^verbatim>\<open>^[A-Z]{2,5}$\<close> is applied
  to the upper-cased, stripped code.
\<close>

definition validate_currency_code :: "string \<Rightarrow> error + string" where
  "validate_currency_code code =
     (if code = [] \<or> str_strip code = []
      then Inl (ValidationError ''currency code must not be empty'')
      else let code' = str_strip (str_upper code) in
        if 2 \<le> length code' \<and> length code' \<le> 5
             \<and> list_all (\<lambda>c. c \<in> set ascii_uppercase) code'
        then Inr code'
        else Inl (ValidationError
                    (''currency code must have 2-5 letters (A-Z), got: '' @ code')))"

text \<open>
  The registry as \<^verbatim>\<open>_init_currency_registry\<close> fills it; \<^verbatim>\<open>get_currency\<close> returns
  the registered currency, of which the model keeps the code.
\<close>

definition CURRENCY_REGISTRY :: "string list" where
  "CURRENCY_REGISTRY =
     [''USD'', ''EUR'', ''GBP'', ''RUB'', ''JPY'', ''CNY'', ''CHF'', ''CAD'', ''AUD'',
      ''BTC'', ''ETH'', ''SOL'', ''XRP'', ''ADA'', ''DOGE'', ''LTC'']"

definition get_currency :: "string \<Rightarrow> error + string" where
  "get_currency code =
     (let code' = str_strip (str_upper code) in
      if code' \<in> set CURRENCY_REGISTRY then Inr code'
      else Inl (CurrencyNotFoundError code'))"

datatype timestamp_arg = NoneArg | StrArg string | DatetimeArg datetime

definition parse_datetime :: "pylib \<Rightarrow> timestamp_arg \<Rightarrow> datetime option" where
  "parse_datetime lib v =
     (case v of
        NoneArg \<Rightarrow> None
      | DatetimeArg d \<Rightarrow> Some d
      | StrArg s \<Rightarrow> fromisoformat lib (str_replace (CHR ''Z'') ''+00:00'' s))"

text \<open>
  \<^verbatim>\<open>is_rate_fresh\<close>; \<open>now\<close> is the instant of \<^verbatim>\<open>datetime.now()\<close>, which is naive.
  The subtraction raises \<^verbatim>\<open>TypeError\<close> when \<open>updated_at\<close> is timezone-aware.
\<close>

definition is_rate_fresh :: "pylib \<Rightarrow> int \<Rightarrow> timestamp_arg \<Rightarrow> int \<Rightarrow> error + bool" where
  "is_rate_fresh lib now updated_at ttl_seconds =
     (if updated_at = NoneArg then Inr False
      else
        let updated_at' =
              (case updated_at of
                 StrArg s \<Rightarrow> parse_datetime lib updated_at
               | DatetimeArg d \<Rightarrow> Some d
               | NoneArg \<Rightarrow> None)
        in case updated_at' of
             None \<Rightarrow> Inr False
           | Some u \<Rightarrow>
               (case datetime_sub (Naive now) u of
                  Inl e \<Rightarrow> Inl e
                | Inr delta \<Rightarrow>
                    Inr (total_seconds lib delta < real_of_int ttl_seconds)))"

text \<open>
  A value of the \<^verbatim>\<open>pairs\<close> object of \<^verbatim>\<open>rates.json\<close>: a bare number, the empty
  object, or a non-empty object, of which the model keeps the keys \<^verbatim>\<open>rate\<close> (a
  number), \<^verbatim>\<open>updated_at\<close> and \<^verbatim>\<open>source\<close> (strings); such a field is \<open>None\<close>
  when its key is absent or null.
\<close>

datatype 'n rate_info =
    Bare 'n
  | EmptyDict
  | Wrapped (info_rate: "'n option") (info_updated_at: "string option")
            (info_source: "string option")

type_synonym 'n pairs_dict = "(string \<times> 'n rate_info) list"

text \<open>\<^verbatim>\<open>x.get("rate") if isinstance(x, dict) else x\<close>\<close>

definition rate_of :: "'n rate_info \<Rightarrow> 'n option" where
  "rate_of x = (case x of Bare r \<Rightarrow> Some r | EmptyDict \<Rightarrow> None | Wrapped r u s \<Rightarrow> r)"

text \<open>The truth value of \<^verbatim>\<open>pairs.get(key)\<close>: a non-empty object is true.\<close>

definition truthy_info :: "'n pynum \<Rightarrow> 'n rate_info option \<Rightarrow> bool" where
  "truthy_info num x =
     (case x of
        None \<Rightarrow> False
      | Some (Bare r) \<Rightarrow> \<not> is_zero num r
      | Some EmptyDict \<Rightarrow> False
      | Some (Wrapped r u s) \<Rightarrow> True)"

definition calculate_rate ::
  "'n pynum \<Rightarrow> string \<Rightarrow> string \<Rightarrow> 'n pairs_dict \<Rightarrow> error + 'n option" where
  "calculate_rate num from_code0 to_code0 rates =
     (let from_code = str_upper from_code0; to_code = str_upper to_code0 in
      if from_code = to_code then Inr (Some (float_one num))
      else
        let direct_pair = from_code @ ''_'' @ to_code in
        case map_of rates direct_pair of
          Some rate_data \<Rightarrow> Inr (rate_of rate_data)
        | None \<Rightarrow>
            let reverse_pair = to_code @ ''_'' @ from_code;
                via_usd =
                  (if from_code \<noteq> ''USD'' \<and> to_code \<noteq> ''USD'' then
                     let from_usd_pair = from_code @ ''_USD'';
                         to_usd_pair = to_code @ ''_USD'';
                         from_rate = (case map_of rates from_usd_pair of
                                        Some rate_data \<Rightarrow> rate_of rate_data
                                      | None \<Rightarrow> None);
                         to_rate = (case map_of rates to_usd_pair of
                                      Some rate_data \<Rightarrow> rate_of rate_data
                                    | None \<Rightarrow> None)
                     in case (from_rate, to_rate) of
                          (Some a, Some b) \<Rightarrow>
                            if \<not> is_zero num a \<and> \<not> is_zero num b \<and> \<not> is_zero num b
                            then (case truediv num a b of
                                    Inl e \<Rightarrow> Inl e
                                  | Inr q \<Rightarrow> Inr (Some q))
                            else Inr None
                        | _ \<Rightarrow> Inr None
                   else Inr None)
            in case map_of rates reverse_pair of
                 Some rate_data \<Rightarrow>
                   (case rate_of rate_data of
                      Some r \<Rightarrow>
                        if \<not> is_zero num r \<and> \<not> is_zero num r
                        then (case truediv num (float_one num) r of
                                Inl e \<Rightarrow> Inl e
                              | Inr q \<Rightarrow> Inr (Some q))
                        else via_usd
                    | None \<Rightarrow> via_usd)
               | None \<Rightarrow> via_usd)"

section \<open>infra/settings.py and infra/database.py\<close>

record settings =
  rates_ttl_seconds :: int
  default_base_currency :: string

text \<open>The defaults of \<^verbatim>\<open>SettingsLoader._load_defaults\<close>.\<close>

definition default_settings :: settings where
  "default_settings = \<lparr>rates_ttl_seconds = 300, default_base_currency = ''USD''\<rparr>"

text \<open>
  The cache document of \<^verbatim>\<open>rates.json\<close>. \<open>pairs\<close> is \<open>None\<close> when the key is absent;
  \<open>last_refresh\<close> and \<open>doc_source\<close> are \<open>None\<close> when absent or null.
\<close>

record 'n rates_doc =
  pairs :: "'n pairs_dict option"
  last_refresh :: "string option"
  doc_source :: "string option"

text \<open>
  The default document of \<^verbatim>\<open>get_rates\<close> and \<^verbatim>\<open>get_rates_cache\<close>:
  \<^verbatim>\<open>{"pairs": {}, "last_refresh": None}\<close>.
\<close>

definition empty_doc :: "'n rates_doc" where
  "empty_doc = \<lparr>pairs = Some [], last_refresh = None, doc_source = None\<rparr>"

text \<open>A record written to \<^verbatim>\<open>exchange_rates.json\<close>; \<open>rec_id\<close> is its key \<^verbatim>\<open>id\<close>.\<close>

record 'n history_record =
  rec_id :: "string option"
  from_currency :: string
  to_currency :: string
  rec_rate :: 'n
  timestamp :: string
  rec_source :: string
  meta :: "(string \<times> string) list option"

text \<open>
  What the next calls of \<^verbatim>\<open>_write_json\<close> meet in the file system: no failure, a
  failure of \<^verbatim>\<open>tempfile.mkstemp\<close>, a failure while the temporary file is opened and
  the document is serialised into it, or a failure of \<^verbatim>\<open>os.replace\<close>.
\<close>

datatype fault = NoFault | MkstempFails error | StagingFails error | ReplaceFails error

text \<open>
  The data directory. A file is \<open>None\<close> when it is missing or does not hold JSON, the
  two cases in which \<^verbatim>\<open>_read_json\<close> returns \<^verbatim>\<open>None\<close>. \<open>tmp_files\<close> counts the
  \<^verbatim>\<open>.tmp\<close> artifacts in the directory; \<open>faults\<close> lists the outcomes of the coming
  writes, in order, and an empty list means that no write fails.
\<close>

record 'n disk =
  rates_json :: "'n rates_doc option"
  exchange_rates_json :: "'n history_record list option"
  tmp_files :: nat
  faults :: "fault list"

text \<open>The two paths \<^verbatim>\<open>settings.get("rates_file")\<close> and \<^verbatim>\<open>settings.get("exchange_rates_file")\<close>.\<close>

definition rates_file :: "'n rates_doc option \<Rightarrow> 'n disk \<Rightarrow> 'n disk" where
  "rates_file content d = d\<lparr>rates_json := content\<rparr>"

definition exchange_rates_file :: "'n history_record list option \<Rightarrow> 'n disk \<Rightarrow> 'n disk" where
  "exchange_rates_file content d = d\<lparr>exchange_rates_json := content\<rparr>"

text \<open>\<^verbatim>\<open>DatabaseManager.get_rates\<close>\<close>

definition get_rates :: "'n disk \<Rightarrow> 'n rates_doc" where
  "get_rates d = (case rates_json d of None \<Rightarrow> empty_doc | Some data \<Rightarrow> data)"

section \<open>core/usecases.py: RatesService.get\_rate\<close>

record 'n rate_result =
  from_code :: string
  to_code :: string
  rate :: "'n option"
  reverse_rate :: "'n option"
  updated_at :: "string option"
  source :: "string option"
  fresh :: bool

definition rate_unavailable :: "string \<Rightarrow> string \<Rightarrow> string" where
  "rate_unavailable fc tc =
     ''Rate '' @ fc @ ''->'' @ tc @ '' is unavailable. Try again later.''"

text \<open>\<^verbatim>\<open>x.get("updated_at") if isinstance(x, dict) else None\<close>\<close>

definition updated_at_of :: "'n rate_info \<Rightarrow> string option" where
  "updated_at_of x = (case x of Bare r \<Rightarrow> None | EmptyDict \<Rightarrow> None | Wrapped r u s \<Rightarrow> u)"

text \<open>\<^verbatim>\<open>x.get("source") if isinstance(x, dict) else "cache"\<close>\<close>

definition source_of :: "'n rate_info \<Rightarrow> string option" where
  "source_of x =
     (case x of Bare r \<Rightarrow> Some ''cache'' | EmptyDict \<Rightarrow> None | Wrapped r u s \<Rightarrow> s)"

text \<open>An optional string as the argument of \<^verbatim>\<open>is_rate_fresh\<close>.\<close>

definition str_arg :: "string option \<Rightarrow> timestamp_arg" where
  "str_arg x = (case x of None \<Rightarrow> NoneArg | Some t \<Rightarrow> StrArg t)"

text \<open>\<^verbatim>\<open>1.0 / rate if rate else None\<close>\<close>

definition inverse_or_none :: "'n pynum \<Rightarrow> 'n option \<Rightarrow> error + 'n option" where
  "inverse_or_none num x =
     (case x of
        None \<Rightarrow> Inr None
      | Some r \<Rightarrow>
          if \<not> is_zero num r
          then (case truediv num (float_one num) r of
                  Inl e \<Rightarrow> Inl e
                | Inr q \<Rightarrow> Inr (Some q))
          else Inr None)"

text \<open>
  \<open>now\<close> is the instant of \<^verbatim>\<open>datetime.now()\<close>. The decorator \<^verbatim>\<open>log_action\<close> logs and
  re-raises; it does not change the result. For a document without the key \<^verbatim>\<open>pairs\<close>
  the source looks the pair keys up in the document itself
  (\<^verbatim>\<open>rates_data.get("pairs", rates_data)\<close>); the documents of this model have no
  top-level keys but \<^verbatim>\<open>pairs\<close>, \<^verbatim>\<open>last_refresh\<close> and \<^verbatim>\<open>source\<close>, none of which
  is a pair key, so that table is empty. In the direct branch the freshness is computed
  before the inverse rate, in the reverse branch after it.
\<close>

definition get_rate ::
  "settings \<Rightarrow> 'n pynum \<Rightarrow> pylib \<Rightarrow> int \<Rightarrow> 'n disk \<Rightarrow> string \<Rightarrow> string
   \<Rightarrow> error + 'n rate_result" where
  "get_rate settings num lib now db from_code0 to_code0 =
     (case validate_currency_code from_code0 of Inl e \<Rightarrow> Inl e | Inr fc \<Rightarrow>
      case validate_currency_code to_code0 of Inl e \<Rightarrow> Inl e | Inr tc \<Rightarrow>
      case get_currency fc of Inl e \<Rightarrow> Inl e | Inr _ \<Rightarrow>
      case get_currency tc of Inl e \<Rightarrow> Inl e | Inr _ \<Rightarrow>
      if fc = tc then
        Inr \<lparr>from_code = fc, to_code = tc, rate = Some (float_one num),
             reverse_rate = Some (float_one num),
             updated_at = Some (isoformat lib (Naive now)), source = None,
             fresh = True\<rparr>
      else
        let rates_data = get_rates db;
            pairs = (case pairs rates_data of Some p \<Rightarrow> p | None \<Rightarrow> []);
            pair = fc @ ''_'' @ tc;
            rate_info = map_of pairs pair;
            reverse_pair = tc @ ''_'' @ fc;
            reverse_info = map_of pairs reverse_pair;
            via_usd =
              (case calculate_rate num fc tc pairs of
                 Inl e \<Rightarrow> Inl e
               | Inr calc \<Rightarrow>
                   if truthy num calc then
                     (case inverse_or_none num calc of
                        Inl e \<Rightarrow> Inl e
                      | Inr rr \<Rightarrow>
                          Inr \<lparr>from_code = fc, to_code = tc, rate = calc,
                               reverse_rate = rr,
                               updated_at = last_refresh rates_data,
                               source = Some ''calculated'', fresh = True\<rparr>)
                   else Inl (ApiRequestError (rate_unavailable fc tc)))
        in
        if truthy_info num rate_info then
          (case rate_info of
             None \<Rightarrow> via_usd
           | Some info \<Rightarrow>
               let rate = rate_of info;
                   ttl = rates_ttl_seconds settings
               in case is_rate_fresh lib now (str_arg (updated_at_of info)) ttl of
                    Inl e \<Rightarrow> Inl e
                  | Inr fr \<Rightarrow>
                      (case inverse_or_none num rate of
                         Inl e \<Rightarrow> Inl e
                       | Inr rr \<Rightarrow>
                           Inr \<lparr>from_code = fc, to_code = tc, rate = rate,
                                reverse_rate = rr, updated_at = updated_at_of info,
                                source = source_of info, fresh = fr\<rparr>))
        else if truthy_info num reverse_info then
          (case reverse_info of
             None \<Rightarrow> via_usd
           | Some info \<Rightarrow>
               let reverse_rate = rate_of info in
               (case reverse_rate of
                  None \<Rightarrow> via_usd
                | Some r \<Rightarrow>
                    if \<not> is_zero num r \<and> \<not> is_zero num r then
                      (case truediv num (float_one num) r of
                         Inl e \<Rightarrow> Inl e
                       | Inr rr \<Rightarrow>
                           let ttl = rates_ttl_seconds settings in
                           (case is_rate_fresh lib now (str_arg (updated_at_of info)) ttl of
                              Inl e \<Rightarrow> Inl e
                            | Inr fr \<Rightarrow>
                                Inr \<lparr>from_code = fc, to_code = tc,
                                     rate = Some rr, reverse_rate = reverse_rate,
                                     updated_at = updated_at_of info,
                                     source = source_of info, fresh = fr\<rparr>))
                    else via_usd))
        else via_usd)"

section \<open>parser\_service/storage.py: RatesStorage\<close>

text \<open>
  \<^verbatim>\<open>_write_json\<close>. \<^verbatim>\<open>mkstemp\<close> runs before the \<^verbatim>\<open>try\<close>: when it fails nothing
  was created. Inside the \<^verbatim>\<open>try\<close> the document is staged into the temporary file
  and \<^verbatim>\<open>os.replace\<close> renames it onto the target; the handler removes the temporary
  file, which exists at that point, and re-raises.
\<close>

definition next_fault :: "'n disk \<Rightarrow> fault \<times> 'n disk" where
  "next_fault d =
     (case faults d of [] \<Rightarrow> (NoFault, d) | f # fs \<Rightarrow> (f, d\<lparr>faults := fs\<rparr>))"

definition write_json ::
  "('a option \<Rightarrow> 'n disk \<Rightarrow> 'n disk) \<Rightarrow> 'a \<Rightarrow> 'n disk \<Rightarrow> (error + unit) \<times> 'n disk" where
  "write_json filepath data d0 =
     (case next_fault d0 of
        (MkstempFails e, d) \<Rightarrow> (Inl e, d)
      | (flt, d) \<Rightarrow>
          let staged = d\<lparr>tmp_files := tmp_files d + 1\<rparr>;
              unlinked = staged\<lparr>tmp_files := tmp_files staged - 1\<rparr>
          in case flt of
               StagingFails e \<Rightarrow> (Inl e, unlinked)
             | ReplaceFails e \<Rightarrow> (Inl e, unlinked)
             | _ \<Rightarrow> (Inr (), filepath (Some data) (staged\<lparr>tmp_files := tmp_files staged - 1\<rparr>)))"

definition get_rates_cache :: "'n disk \<Rightarrow> 'n rates_doc" where
  "get_rates_cache d = (case rates_json d of None \<Rightarrow> empty_doc | Some data \<Rightarrow> data)"

text \<open>\<open>current_time\<close> is the text of \<^verbatim>\<open>datetime.now().isoformat()\<close>.\<close>

definition save_rates_cache ::
  "string \<Rightarrow> (string \<times> 'n) list \<Rightarrow> string \<Rightarrow> 'n disk \<Rightarrow> (error + unit) \<times> 'n disk" where
  "save_rates_cache current_time rates src d =
     (let cache = get_rates_cache d;
          pairs0 = (case pairs cache of Some p \<Rightarrow> p | None \<Rightarrow> []);
          pairs1 = fold (\<lambda>(pair, r) ps.
                      AList.update pair (Wrapped (Some r) (Some current_time) (Some src)) ps)
                    rates pairs0;
          cache1 = cache\<lparr>pairs := Some pairs1, last_refresh := Some current_time,
                         doc_source := Some src\<rparr>
      in write_json rates_file cache1 d)"

definition get_history :: "'n disk \<Rightarrow> 'n history_record list" where
  "get_history d = (case exchange_rates_json d of None \<Rightarrow> [] | Some data \<Rightarrow> data)"

text \<open>The truth value of \<^verbatim>\<open>record.get("id")\<close>: an absent id and the empty string are false.\<close>

definition truthy_id :: "string option \<Rightarrow> bool" where
  "truthy_id x = (case x of None \<Rightarrow> False | Some s \<Rightarrow> s \<noteq> [])"

definition add_history_record ::
  "'n history_record \<Rightarrow> 'n disk \<Rightarrow> (error + unit) \<times> 'n disk" where
  "add_history_record rec d =
     (let history = get_history d;
          record_id = rec_id rec
      in if truthy_id record_id \<and> list_ex (\<lambda>existing. rec_id existing = record_id) history
         then (Inr (), d)
         else write_json exchange_rates_file (history @ [rec]) d)"

text \<open>
  \<^verbatim>\<open>save_rates_to_history\<close>; \<open>utcnow\<close> is the text of \<^verbatim>\<open>datetime.utcnow().isoformat()\<close>.
  An exception of \<^verbatim>\<open>add_history_record\<close> ends the loop.
\<close>

fun history_loop ::
  "string \<Rightarrow> string \<Rightarrow> (string \<times> string) list option \<Rightarrow> (string \<times> 'n) list \<Rightarrow> 'n disk
   \<Rightarrow> (error + unit) \<times> 'n disk" where
  "history_loop ts src m [] d = (Inr (), d)"
| "history_loop ts src m ((pair, r) # rest) d =
     (case str_split (CHR ''_'') pair of
        [fc, tc] \<Rightarrow>
          (case add_history_record
                  \<lparr>rec_id = Some (pair @ ''_'' @ ts), from_currency = fc, to_currency = tc,
                   rec_rate = r, timestamp = ts, rec_source = src,
                   meta = (case m of None \<Rightarrow> None | Some kv \<Rightarrow> if kv \<noteq> [] then Some kv else None)\<rparr>
                  d of
             (Inl e, d') \<Rightarrow> (Inl e, d')
           | (Inr u, d') \<Rightarrow> history_loop ts src m rest d')
      | _ \<Rightarrow> history_loop ts src m rest d)"

definition save_rates_to_history ::
  "string \<Rightarrow> (string \<times> 'n) list \<Rightarrow> string \<Rightarrow> (string \<times> string) list option \<Rightarrow> 'n disk
   \<Rightarrow> (error + unit) \<times> 'n disk" where
  "save_rates_to_history utcnow rates src m d = history_loop (utcnow @ ''Z'') src m rates d"

section \<open>parser\_service/updater.py: RatesUpdater\<close>

text \<open>
  A client of the cycle: its \<^verbatim>\<open>source_name\<close> and what its \<^verbatim>\<open>fetch_rates()\<close> does
  when called: it returns a map, raises \<^verbatim>\<open>ApiRequestError(reason)\<close>, or raises
  another \<^verbatim>\<open>Exception\<close> with the given text.
\<close>

datatype 'n fetch_outcome =
    Returns "(string \<times> 'n) list"
  | RaisesApiRequestError string
  | RaisesException string

record 'n api_client =
  source_name :: string
  fetch_rates :: "'n fetch_outcome"

datatype success_value = PyTrue | PyFalse | Partial

datatype source_entry = OK nat "string list" | ERROR string

record update_result =
  success :: success_value
  sources :: "(string \<times> source_entry) list"
  total_rates :: nat
  errors :: "string list"
  started_at :: string
  completed_at :: "string option"
  duration_ms :: "int option"

text \<open>
  The readings of the clock during one cycle: the instants of the two
  \<^verbatim>\<open>datetime.now()\<close> of \<^verbatim>\<open>run_update\<close>, and the texts of
  \<^verbatim>\<open>datetime.now().isoformat()\<close> in \<^verbatim>\<open>save_rates_cache\<close> and of
  \<^verbatim>\<open>datetime.utcnow().isoformat()\<close> in \<^verbatim>\<open>save_rates_to_history\<close>.
\<close>

record clock =
  start_time :: int
  cache_now :: string
  history_utcnow :: string
  end_time :: int

text \<open>\<^verbatim>\<open>s.lower().replace("-", "").replace(" ", "")\<close>\<close>

definition normalize :: "string \<Rightarrow> string" where
  "normalize s = str_remove (CHR '' '') (str_remove (CHR ''-'') (str_lower s))"

text \<open>\<^verbatim>\<open>all_rates.update(rates)\<close>\<close>

definition dict_update :: "(string \<times> 'n) list \<Rightarrow> (string \<times> 'n) list \<Rightarrow> (string \<times> 'n) list" where
  "dict_update d rates = fold (\<lambda>(k, v) acc. AList.update k v acc) rates d"

text \<open>\<^verbatim>\<open>str(e)\<close> of an \<^verbatim>\<open>ApiRequestError\<close>, as its constructor builds it.\<close>

definition api_error_message :: "string \<Rightarrow> string" where
  "api_error_message reason = ''Error while calling the external API: '' @ reason"

text \<open>The \<^verbatim>\<open>for client in self._clients\<close> loop on \<open>results\<close> and \<open>all_rates\<close>.\<close>

fun poll_clients ::
  "string list option \<Rightarrow> 'n api_client list \<Rightarrow> update_result \<times> (string \<times> 'n) list
   \<Rightarrow> update_result \<times> (string \<times> 'n) list" where
  "poll_clients source_filter [] acc = acc"
| "poll_clients source_filter (client # clients) (results, all_rates) =
     (let name = normalize (source_name client);
          skip = (case source_filter of
                    None \<Rightarrow> False
                  | Some ss \<Rightarrow> ss \<noteq> [] \<and> name \<notin> set (map normalize ss))
      in if skip then poll_clients source_filter clients (results, all_rates)
         else
           (case fetch_rates client of
              Returns rates \<Rightarrow>
                poll_clients source_filter clients
                  (results\<lparr>sources := AList.update (source_name client)
                                        (OK (length rates) (map fst rates)) (sources results)\<rparr>,
                   dict_update all_rates rates)
            | RaisesApiRequestError reason \<Rightarrow>
                let error_msg = api_error_message reason in
                poll_clients source_filter clients
                  (results\<lparr>sources := AList.update (source_name client) (ERROR error_msg)
                                        (sources results),
                           errors := errors results @ [source_name client @ '': '' @ error_msg],
                           success := PyFalse\<rparr>,
                   all_rates)
            | RaisesException msg \<Rightarrow>
                let error_msg = ''Unexpected error: '' @ msg in
                poll_clients source_filter clients
                  (results\<lparr>sources := AList.update (source_name client) (ERROR error_msg)
                                        (sources results),
                           errors := errors results @ [source_name client @ '': '' @ error_msg],
                           success := PyFalse\<rparr>,
                   all_rates)))"

text \<open>
  \<^verbatim>\<open>run_update\<close>. The duration is
  \<^verbatim>\<open>int((end_time - start_time).total_seconds() * 1000)\<close>, a float product truncated.
\<close>

definition run_update ::
  "pylib \<Rightarrow> clock \<Rightarrow> 'n api_client list \<Rightarrow> string list option \<Rightarrow> 'n disk
   \<Rightarrow> (error + update_result) \<times> 'n disk" where
  "run_update lib clk clients source_filter storage =
     (let results0 = \<lparr>success = PyTrue, sources = [], total_rates = 0, errors = [],
                      started_at = isoformat lib (Naive (start_time clk)), completed_at = None,
                      duration_ms = None\<rparr>;
          polled = poll_clients source_filter clients (results0, []);
          results1 = fst polled;
          all_rates = snd polled;
          saved =
            (if all_rates \<noteq> [] then
               (case save_rates_cache (cache_now clk) all_rates ''ParserService'' storage of
                  (Inl e, d1) \<Rightarrow> (Inl e, d1)
                | (Inr u, d1) \<Rightarrow>
                    (case save_rates_to_history (history_utcnow clk) all_rates
                            ''ParserService'' None d1 of
                       (Inl e, d2) \<Rightarrow> (Inl e, d2)
                     | (Inr u, d2) \<Rightarrow> (Inr (results1\<lparr>total_rates := length all_rates\<rparr>), d2)))
             else (Inr results1, storage))
      in case saved of
           (Inl e, d) \<Rightarrow> (Inl e, d)
         | (Inr results2, d) \<Rightarrow>
             let results3 =
                   results2\<lparr>completed_at := Some (isoformat lib (Naive (end_time clk))),
                            duration_ms :=
                              Some (py_int (float_mul lib
                                      (total_seconds lib (end_time clk - start_time clk))
                                      1000))\<rparr>
             in (Inr (if all_rates \<noteq> [] \<and> errors results3 \<noteq> []
                      then results3\<lparr>success := Partial\<rparr> else results3), d))"

section \<open>Notions used in the statements\<close>

text \<open>The rate cached under a key, and the pair table \<^verbatim>\<open>get_rate\<close> reads from the cache.\<close>

definition cached_rate :: "'n pairs_dict \<Rightarrow> string \<Rightarrow> 'n option" where
  "cached_rate ps key = (case map_of ps key of Some info \<Rightarrow> rate_of info | None \<Rightarrow> None)"

definition doc_pairs :: "'n disk \<Rightarrow> 'n pairs_dict" where
  "doc_pairs db = (case pairs (get_rates db) of Some p \<Rightarrow> p | None \<Rightarrow> [])"

text \<open>
  Fixtures. Numbers as reals with exact division, and with a division whose quotient
  underflows to zero below the smallest subnormal double; a library whose
  \<^verbatim>\<open>fromisoformat\<close> knows one naive and one aware timestamp, both the instant 0; a
  data directory holding a given pair table.
\<close>

definition exact_num :: "real pynum" where
  "exact_num = \<lparr>float_one = 1, is_zero = (\<lambda>x. x = 0), div_nonzero = (\<lambda>a b. Inr (a / b))\<rparr>"

definition underflow_num :: "real pynum" where
  "underflow_num =
     \<lparr>float_one = 1, is_zero = (\<lambda>x. x = 0),
      div_nonzero = (\<lambda>a b. Inr (if \<bar>a / b\<bar> < 1 / 2 ^ 1075 then 0 else a / b))\<rparr>"

definition sample_lib :: pylib where
  "sample_lib =
     \<lparr>fromisoformat =
        (\<lambda>s. if s = ''2025-01-01T00:00:00'' then Some (Naive 0)
             else if s = ''2025-01-01T00:00:00+00:00'' then Some (Aware 0)
             else None),
      isoformat = (\<lambda>d. ''2025-01-02T00:00:00''),
      total_seconds = (\<lambda>delta. real_of_int delta / 1000000),
      float_mul = (\<lambda>x y. x * y)\<rparr>"

definition cache_of :: "'n pairs_dict \<Rightarrow> 'n disk" where
  "cache_of ps =
     \<lparr>rates_json = Some \<lparr>pairs = Some ps, last_refresh = Some ''2025-01-01T00:00:00'',
                          doc_source = Some ''ParserService''\<rparr>,
      exchange_rates_json = Some [], tmp_files = 0, faults = []\<rparr>"

text \<open>
  The ids of a history that count for duplicate detection, and two fixtures: a data
  directory holding a given history, and a record of the pair BTC\_USD.
\<close>

definition truthy_ids :: "'n history_record list \<Rightarrow> string option list" where
  "truthy_ids h = filter truthy_id (map rec_id h)"

definition history_of :: "'n history_record list \<Rightarrow> 'n disk" where
  "history_of h =
     \<lparr>rates_json = Some empty_doc, exchange_rates_json = Some h, tmp_files = 0, faults = []\<rparr>"

definition sample_record :: "string option \<Rightarrow> 'n \<Rightarrow> 'n history_record" where
  "sample_record i r =
     \<lparr>rec_id = i, from_currency = ''BTC'', to_currency = ''USD'', rec_rate = r,
      timestamp = ''2025-01-01T00:00:00Z'', rec_source = ''ParserService'', meta = None\<rparr>"

text \<open>
  The update cycle: whether the filter selects a client, whether its \<^verbatim>\<open>fetch_rates\<close>
  raises, the pair keys the selected clients return, and the initial \<^verbatim>\<open>results\<close>.
\<close>

definition selected :: "string list option \<Rightarrow> 'n api_client \<Rightarrow> bool" where
  "selected source_filter client =
     (case source_filter of
        None \<Rightarrow> True
      | Some ss \<Rightarrow> ss = [] \<or> normalize (source_name client) \<in> set (map normalize ss))"

definition fails :: "'n api_client \<Rightarrow> bool" where
  "fails client = (case fetch_rates client of Returns rates \<Rightarrow> False | _ \<Rightarrow> True)"

definition produced_keys :: "string list option \<Rightarrow> 'n api_client list \<Rightarrow> string list" where
  "produced_keys source_filter clients =
     concat (map (\<lambda>c. case fetch_rates c of
                         Returns rates \<Rightarrow> if selected source_filter c then map fst rates else []
                       | _ \<Rightarrow> [])
                 clients)"

definition results0 :: "pylib \<Rightarrow> clock \<Rightarrow> update_result" where
  "results0 lib clk =
     \<lparr>success = PyTrue, sources = [], total_rates = 0, errors = [],
      started_at = isoformat lib (Naive (start_time clk)), completed_at = None,
      duration_ms = None\<rparr>"

text \<open>Fixtures: clock readings and three clients.\<close>

definition clock0 :: clock where
  "clock0 = \<lparr>start_time = 0, cache_now = ''2025-01-02T00:00:00'',
             history_utcnow = ''2025-01-01T21:00:00'', end_time = 1500000\<rparr>"

definition failing_client :: "real api_client" where
  "failing_client = \<lparr>source_name = ''CoinGecko'', fetch_rates = RaisesApiRequestError ''timeout''\<rparr>"

definition fiat_client :: "real api_client" where
  "fiat_client =
     \<lparr>source_name = ''ExchangeRate-API'',
      fetch_rates = Returns [(''EUR_USD'', 1.0786), (''GBP_USD'', 1.265), (''RUB_USD'', 0.01016),
                             (''JPY_USD'', 0.0067), (''CNY_USD'', 0.138)]\<rparr>"

definition empty_client :: "real api_client" where
  "empty_client = \<lparr>source_name = ''MockAPI'', fetch_rates = Returns []\<rparr>"

section \<open>The resolver\<close>

lemma registry_all:
  "list_all (\<lambda>c. validate_currency_code c = Inr c \<and> get_currency c = Inr c \<and> str_upper c = c)
     CURRENCY_REGISTRY"
  by code_simp

lemma registry_codes:
  "c \<in> set CURRENCY_REGISTRY \<Longrightarrow>
     validate_currency_code c = Inr c \<and> get_currency c = Inr c \<and> str_upper c = c"
  using registry_all unfolding list_all_iff by blast

lemma truthy_rate_info: "truthy num (rate_of info) \<Longrightarrow> truthy_info num (Some info)"
  by (cases info) (auto simp: truthy_def rate_of_def truthy_info_def split: option.splits)

lemma calculate_rate_no_direct:
  assumes up: "str_upper fc = fc" "str_upper tc = tc"
    and ne: "fc \<noteq> tc"
    and direct: "map_of ps (fc @ ''_'' @ tc) = None"
    and rev: "\<not> truthy num (cached_rate ps (tc @ ''_'' @ fc))"
  shows "calculate_rate num fc tc ps =
           (if fc \<noteq> ''USD'' \<and> tc \<noteq> ''USD'' then
              (case (cached_rate ps (fc @ ''_USD''), cached_rate ps (tc @ ''_USD'')) of
                 (Some a, Some b) \<Rightarrow>
                   if \<not> is_zero num a \<and> \<not> is_zero num b
                   then (case div_nonzero num a b of Inl e \<Rightarrow> Inl e | Inr q \<Rightarrow> Inr (Some q))
                   else Inr None
               | _ \<Rightarrow> Inr None)
            else Inr None)"
proof -
  define dk where "dk = fc @ ''_'' @ tc"
  define rk where "rk = tc @ ''_'' @ fc"
  define ak where "ak = fc @ ''_USD''"
  define bk where "bk = tc @ ''_USD''"
  define usd where "usd = ''USD''"
  have r: "map_of ps rk = None
           \<or> (\<exists>i. map_of ps rk = Some i
                  \<and> (rate_of i = None \<or> (\<exists>z. rate_of i = Some z \<and> is_zero num z)))"
    using rev unfolding rk_def cached_rate_def truthy_def
    by (cases "map_of ps (tc @ ''_'' @ fc)") (auto split: option.splits)
  have d: "map_of ps dk = None" using direct by (simp add: dk_def)
  show ?thesis
    unfolding calculate_rate_def up Let_def cached_rate_def
      dk_def[symmetric] rk_def[symmetric] ak_def[symmetric] bk_def[symmetric] usd_def[symmetric]
    using r d ne
    by (auto simp: truediv_def split: option.splits)
qed

lemma get_rate_via_usd:
  assumes v: "validate_currency_code from_code0 = Inr fc" "validate_currency_code to_code0 = Inr tc"
    and reg: "fc \<in> set CURRENCY_REGISTRY" "tc \<in> set CURRENCY_REGISTRY"
    and ne: "fc \<noteq> tc"
    and direct: "\<not> truthy_info num (map_of (doc_pairs db) (fc @ ''_'' @ tc))"
    and rev: "\<not> truthy num (cached_rate (doc_pairs db) (tc @ ''_'' @ fc))"
  shows "get_rate st num lib now db from_code0 to_code0 =
           (case calculate_rate num fc tc (doc_pairs db) of
              Inl e \<Rightarrow> Inl e
            | Inr calc \<Rightarrow>
                if truthy num calc then
                  (case inverse_or_none num calc of
                     Inl e \<Rightarrow> Inl e
                   | Inr rr \<Rightarrow>
                       Inr \<lparr>from_code = fc, to_code = tc, rate = calc, reverse_rate = rr,
                            updated_at = last_refresh (get_rates db),
                            source = Some ''calculated'', fresh = True\<rparr>)
                else Inl (ApiRequestError (rate_unavailable fc tc)))"
proof -
  define dk where "dk = fc @ ''_'' @ tc"
  define rk where "rk = tc @ ''_'' @ fc"
  define calc where "calc = calculate_rate num fc tc (doc_pairs db)"
  have g: "get_currency fc = Inr fc" "get_currency tc = Inr tc"
    using reg registry_codes by blast+
  have d: "\<not> truthy_info num (map_of (doc_pairs db) dk)"
    using direct by (simp add: dk_def)
  have r: "map_of (doc_pairs db) rk = None
           \<or> (\<exists>i. map_of (doc_pairs db) rk = Some i
                  \<and> (rate_of i = None \<or> (\<exists>z. rate_of i = Some z \<and> is_zero num z)))"
    using rev unfolding rk_def cached_rate_def truthy_def
    by (cases "map_of (doc_pairs db) (tc @ ''_'' @ fc)") (auto split: option.splits)
  show ?thesis
    unfolding get_rate_def v g Let_def doc_pairs_def[symmetric] sum.case
      dk_def[symmetric] rk_def[symmetric] calc_def[symmetric]
    using r d ne
    by (auto simp: truthy_info_def split: option.splits)
qed

lemma get_rate_direct:
  assumes v: "validate_currency_code from_code0 = Inr fc" "validate_currency_code to_code0 = Inr tc"
    and reg: "fc \<in> set CURRENCY_REGISTRY" "tc \<in> set CURRENCY_REGISTRY"
    and ne: "fc \<noteq> tc"
    and direct: "map_of (doc_pairs db) (fc @ ''_'' @ tc) = Some info"
    and t: "truthy_info num (Some info)"
  shows "get_rate st num lib now db from_code0 to_code0 =
           (case is_rate_fresh lib now (str_arg (updated_at_of info)) (rates_ttl_seconds st) of
              Inl e \<Rightarrow> Inl e
            | Inr fr \<Rightarrow>
                (case inverse_or_none num (rate_of info) of
                   Inl e \<Rightarrow> Inl e
                 | Inr rr \<Rightarrow>
                     Inr \<lparr>from_code = fc, to_code = tc, rate = rate_of info, reverse_rate = rr,
                          updated_at = updated_at_of info, source = source_of info,
                          fresh = fr\<rparr>))"
proof -
  define dk where "dk = fc @ ''_'' @ tc"
  define rk where "rk = tc @ ''_'' @ fc"
  define calc where "calc = calculate_rate num fc tc (doc_pairs db)"
  have g: "get_currency fc = Inr fc" "get_currency tc = Inr tc"
    using reg registry_codes by blast+
  have d: "map_of (doc_pairs db) dk = Some info" using direct by (simp add: dk_def)
  show ?thesis
    unfolding get_rate_def v g Let_def doc_pairs_def[symmetric] sum.case
      dk_def[symmetric] rk_def[symmetric] calc_def[symmetric]
    using d t ne by simp
qed

lemma get_rate_reverse:
  assumes v: "validate_currency_code from_code0 = Inr fc" "validate_currency_code to_code0 = Inr tc"
    and reg: "fc \<in> set CURRENCY_REGISTRY" "tc \<in> set CURRENCY_REGISTRY"
    and direct: "\<not> truthy_info num (map_of (doc_pairs db) (fc @ ''_'' @ tc))"
    and rev: "map_of (doc_pairs db) (tc @ ''_'' @ fc) = Some info"
    and r: "rate_of info = Some r" "\<not> is_zero num r"
  shows "get_rate st num lib now db from_code0 to_code0 =
           (case div_nonzero num (float_one num) r of
              Inl e \<Rightarrow> Inl e
            | Inr rr \<Rightarrow>
                (case is_rate_fresh lib now (str_arg (updated_at_of info)) (rates_ttl_seconds st) of
                   Inl e \<Rightarrow> Inl e
                 | Inr fr \<Rightarrow>
                     Inr \<lparr>from_code = fc, to_code = tc, rate = Some rr, reverse_rate = Some r,
                          updated_at = updated_at_of info, source = source_of info,
                          fresh = fr\<rparr>))"
proof -
  define dk where "dk = fc @ ''_'' @ tc"
  define rk where "rk = tc @ ''_'' @ fc"
  define calc where "calc = calculate_rate num fc tc (doc_pairs db)"
  have g: "get_currency fc = Inr fc" "get_currency tc = Inr tc"
    using reg registry_codes by blast+
  have t: "truthy_info num (Some info)"
    using r by (intro truthy_rate_info) (simp add: truthy_def)
  have ne: "fc \<noteq> tc" using direct rev t by auto
  have d: "\<not> truthy_info num (map_of (doc_pairs db) dk)" using direct by (simp add: dk_def)
  have rv: "map_of (doc_pairs db) rk = Some info" using rev by (simp add: rk_def)
  show ?thesis
    unfolding get_rate_def v g Let_def doc_pairs_def[symmetric] sum.case
      dk_def[symmetric] rk_def[symmetric] calc_def[symmetric]
    using d rv t r ne
    by (simp add: truediv_def split: sum.splits)
qed

lemma doc_pairs_cache_of: "doc_pairs (cache_of ps) = ps"
  by (simp add: doc_pairs_def cache_of_def get_rates_def)

lemma underflow_quotient:
  "div_nonzero underflow_num (1 / 10 ^ 200) (10 ^ 200) = Inr 0
   \<and> \<not> is_zero underflow_num (1 / 10 ^ 200) \<and> \<not> is_zero underflow_num (10 ^ 200)
   \<and> is_zero underflow_num 0"
proof -
  define A :: real where "A = 10 ^ 200"
  have pos: "0 < A" unfolding A_def by (rule zero_less_power) simp
  have sq: "A * A = 10 ^ 400"
    unfolding A_def power_add [symmetric] by (rule arg_cong [where f = "\<lambda>n. (10::real) ^ n"]) simp
  have "(2::real) ^ 1075 \<le> 2 ^ 1200" by (rule power_increasing) simp_all
  also have "(2::real) ^ 1200 = (2 ^ 3) ^ 400"
    unfolding power_mult [symmetric] by (rule arg_cong [where f = "\<lambda>n. (2::real) ^ n"]) simp
  also have "(2::real) ^ 3 = 8" by simp
  also have "(8::real) ^ 400 < 10 ^ 400" by (rule power_strict_mono) simp_all
  finally have lt: "(2::real) ^ 1075 < A * A" unfolding sq .
  have p2: "0 < (2::real) ^ 1075" by (rule zero_less_power) simp
  have pp: "0 < A * A * 2 ^ 1075" using pos p2 by (intro mult_pos_pos)
  have "1 / (A * A) < 1 / 2 ^ 1075"
    by (rule divide_strict_left_mono [OF lt zero_less_one pp])
  moreover have "\<bar>1 / A / A\<bar> = 1 / (A * A)" using pos by simp
  ultimately have small: "\<bar>1 / A / A\<bar> < 1 / 2 ^ 1075" by (simp only:)
  have d: "div_nonzero underflow_num (1 / A) A = Inr 0"
    unfolding underflow_num_def using small by (simp only: pynum.simps if_True)
  have z: "\<not> is_zero underflow_num (1 / A)" "\<not> is_zero underflow_num A" "is_zero underflow_num 0"
    unfolding underflow_num_def using pos by simp_all
  show ?thesis using d z unfolding A_def by (simp only: simp_thms)
qed

lemma is_rate_fresh_naive:
  assumes "parse_datetime lib (StrArg s) = Some (Naive u)"
  shows "is_rate_fresh lib now (StrArg s) ttl = Inr (total_seconds lib (now - u) < real_of_int ttl)"
  using assms by (simp add: is_rate_fresh_def datetime_sub_def)

text \<open>
  C9, as the code has it. For a rate that \<^verbatim>\<open>get_rate\<close> resolves from the direct pair
  or from the reverse pair (the division for the inverse rate returning a number), and
  whose \<^verbatim>\<open>updated_at\<close> parses to a timezone-naive timestamp, \<^verbatim>\<open>get_rate\<close> returns
  a result, and reports it fresh exactly when the age \<open>now - updated_at\<close> in seconds
  is strictly below the TTL; \<^verbatim>\<open>is_rate_fresh\<close> gives stale at the age TTL + 1 seconds
  and fresh at TTL - 1 seconds. Rates resolved by triangulation are outside this
  statement (they are reported fresh whatever their timestamp, see C4), and nothing is
  stated about timezone-aware timestamps.
\<close>

theorem C9_fresh_iff_age_below_ttl:
  assumes v: "validate_currency_code from_code0 = Inr fc" "validate_currency_code to_code0 = Inr tc"
    and reg: "fc \<in> set CURRENCY_REGISTRY" "tc \<in> set CURRENCY_REGISTRY"
    and ts: "parse_datetime lib (StrArg s) = Some (Naive u)"
  shows "(fc \<noteq> tc
          \<and> map_of (doc_pairs db) (fc @ ''_'' @ tc) = Some (Wrapped rt (Some s) src)
          \<and> inverse_or_none num rt = Inr rr
          \<longrightarrow> (\<exists>res. get_rate st num lib now db from_code0 to_code0 = Inr res
                     \<and> updated_at res = Some s
                     \<and> (fresh res \<longleftrightarrow>
                          total_seconds lib (now - u) < real_of_int (rates_ttl_seconds st))))
       \<and> (\<not> truthy_info num (map_of (doc_pairs db) (fc @ ''_'' @ tc))
          \<and> map_of (doc_pairs db) (tc @ ''_'' @ fc) = Some (Wrapped (Some r) (Some s) src)
          \<and> \<not> is_zero num r \<and> div_nonzero num (float_one num) r = Inr q
          \<longrightarrow> (\<exists>res. get_rate st num lib now db from_code0 to_code0 = Inr res
                     \<and> updated_at res = Some s
                     \<and> (fresh res \<longleftrightarrow>
                          total_seconds lib (now - u) < real_of_int (rates_ttl_seconds st))))
       \<and> (total_seconds lib (now - u) = real_of_int ttl + 1
            \<longrightarrow> is_rate_fresh lib now (StrArg s) ttl = Inr False)
       \<and> (total_seconds lib (now - u) = real_of_int ttl - 1
            \<longrightarrow> is_rate_fresh lib now (StrArg s) ttl = Inr True)"
proof (intro conjI impI)
  assume a: "fc \<noteq> tc
          \<and> map_of (doc_pairs db) (fc @ ''_'' @ tc) = Some (Wrapped rt (Some s) src)
          \<and> inverse_or_none num rt = Inr rr"
  then have ne: "fc \<noteq> tc"
    and d: "map_of (doc_pairs db) (fc @ ''_'' @ tc) = Some (Wrapped rt (Some s) src)"
    and i: "inverse_or_none num rt = Inr rr"
    by blast+
  have t: "truthy_info num (Some (Wrapped rt (Some s) src))"
    by (simp add: truthy_info_def)
  show "\<exists>res. get_rate st num lib now db from_code0 to_code0 = Inr res
                     \<and> updated_at res = Some s
                     \<and> (fresh res \<longleftrightarrow>
                          total_seconds lib (now - u) < real_of_int (rates_ttl_seconds st))"
    unfolding get_rate_direct [OF v reg ne d t]
    by (simp add: updated_at_of_def str_arg_def rate_of_def is_rate_fresh_naive [OF ts] i)
next
  assume a: "\<not> truthy_info num (map_of (doc_pairs db) (fc @ ''_'' @ tc))
          \<and> map_of (doc_pairs db) (tc @ ''_'' @ fc) = Some (Wrapped (Some r) (Some s) src)
          \<and> \<not> is_zero num r \<and> div_nonzero num (float_one num) r = Inr q"
  then have d: "\<not> truthy_info num (map_of (doc_pairs db) (fc @ ''_'' @ tc))"
    and rv: "map_of (doc_pairs db) (tc @ ''_'' @ fc) = Some (Wrapped (Some r) (Some s) src)"
    and nz: "\<not> is_zero num r" and q: "div_nonzero num (float_one num) r = Inr q"
    by blast+
  have ro: "rate_of (Wrapped (Some r) (Some s) src) = Some r" by (simp add: rate_of_def)
  show "\<exists>res. get_rate st num lib now db from_code0 to_code0 = Inr res
                     \<and> updated_at res = Some s
                     \<and> (fresh res \<longleftrightarrow>
                          total_seconds lib (now - u) < real_of_int (rates_ttl_seconds st))"
    unfolding get_rate_reverse [OF v reg d rv ro nz]
    by (simp add: updated_at_of_def str_arg_def is_rate_fresh_naive [OF ts] q)
next
  assume "total_seconds lib (now - u) = real_of_int ttl + 1"
  then show "is_rate_fresh lib now (StrArg s) ttl = Inr False"
    by (simp add: is_rate_fresh_naive [OF ts])
next
  assume "total_seconds lib (now - u) = real_of_int ttl - 1"
  then show "is_rate_fresh lib now (StrArg s) ttl = Inr True"
    by (simp add: is_rate_fresh_naive [OF ts])
qed

theorem C9_witness:
  "(\<exists>res. get_rate default_settings exact_num sample_lib 301000000
            (cache_of [(''EUR_USD'', Wrapped (Some 1.08) (Some ''2025-01-01T00:00:00'')
                                        (Some ''ParserService''))])
            ''EUR'' ''USD'' = Inr res
          \<and> updated_at res = Some ''2025-01-01T00:00:00'' \<and> \<not> fresh res)
   \<and> (\<exists>res. get_rate default_settings exact_num sample_lib 299000000
            (cache_of [(''EUR_USD'', Wrapped (Some 1.08) (Some ''2025-01-01T00:00:00'')
                                        (Some ''ParserService''))])
            ''EUR'' ''USD'' = Inr res
          \<and> updated_at res = Some ''2025-01-01T00:00:00'' \<and> fresh res)
   \<and> (\<exists>res. get_rate default_settings exact_num sample_lib 301000000
            (cache_of [(''EUR_USD'', Wrapped (Some 1.08) (Some ''2025-01-01T00:00:00'')
                                        (Some ''ParserService''))])
            ''USD'' ''EUR'' = Inr res
          \<and> updated_at res = Some ''2025-01-01T00:00:00'' \<and> \<not> fresh res)
   \<and> is_rate_fresh sample_lib 301000000 (StrArg ''2025-01-01T00:00:00'') 300 = Inr False
   \<and> is_rate_fresh sample_lib 299000000 (StrArg ''2025-01-01T00:00:00'') 300 = Inr True"
proof -
  define ps :: "real pairs_dict"
    where "ps = [(''EUR_USD'', Wrapped (Some 1.08) (Some ''2025-01-01T00:00:00'')
                                        (Some ''ParserService''))]"
  have v: "validate_currency_code ''EUR'' = Inr ''EUR''" "validate_currency_code ''USD'' = Inr ''USD''"
    by code_simp+
  have reg: "''EUR'' \<in> set CURRENCY_REGISTRY" "''USD'' \<in> set CURRENCY_REGISTRY"
    by (simp_all add: CURRENCY_REGISTRY_def)
  have ts: "parse_datetime sample_lib (StrArg ''2025-01-01T00:00:00'') = Some (Naive 0)"
    by (simp add: parse_datetime_def sample_lib_def str_replace_def)
  have ne: "''EUR'' \<noteq> ''USD''" by simp
  have d: "map_of (doc_pairs (cache_of ps)) (''EUR'' @ ''_'' @ ''USD'')
             = Some (Wrapped (Some 1.08) (Some ''2025-01-01T00:00:00'') (Some ''ParserService''))"
    by (simp add: doc_pairs_cache_of ps_def)
  have i: "inverse_or_none exact_num (Some 1.08) = Inr (Some (1 / 1.08))"
    by (simp add: inverse_or_none_def truediv_def exact_num_def)
  have nd: "\<not> truthy_info exact_num (map_of (doc_pairs (cache_of ps)) (''USD'' @ ''_'' @ ''EUR''))"
    by (simp add: doc_pairs_cache_of ps_def truthy_info_def)
  have nz: "\<not> is_zero exact_num 1.08"
    and q: "div_nonzero exact_num (float_one exact_num) 1.08 = Inr (1 / 1.08)"
    by (simp_all add: exact_num_def)
  have age: "total_seconds sample_lib (301000000 - 0) = 301"
    "total_seconds sample_lib (299000000 - 0) = 299"
    "rates_ttl_seconds default_settings = 300"
    by (simp_all add: sample_lib_def default_settings_def)
  note direct = C9_fresh_iff_age_below_ttl [OF v reg ts, THEN conjunct1, rule_format,
        OF conjI [OF ne conjI [OF d i]]]
  note reverse = C9_fresh_iff_age_below_ttl [OF v(2) v(1) reg(2) reg(1) ts,
        THEN conjunct2, THEN conjunct1, rule_format,
        OF conjI [OF nd conjI [OF d conjI [OF nz q]]]]
  have a1: "total_seconds sample_lib (301000000 - 0) = real_of_int 300 + 1"
    and a2: "total_seconds sample_lib (299000000 - 0) = real_of_int 300 - 1"
    by (simp_all add: sample_lib_def)
  note stale = C9_fresh_iff_age_below_ttl [OF v reg ts, THEN conjunct2, THEN conjunct2,
        THEN conjunct1, rule_format, OF a1]
  note fresh = C9_fresh_iff_age_below_ttl [OF v reg ts, THEN conjunct2, THEN conjunct2,
        THEN conjunct2, rule_format, OF a2]
  show ?thesis
    using direct [of default_settings 301000000] direct [of default_settings 299000000]
      reverse [of default_settings 301000000] stale fresh
    unfolding age ps_def by simp
qed

text \<open>
  The claim C9 as stated fails: a triangulated rate carries the parseable timestamp
  \<^verbatim>\<open>last_refresh\<close>, here a day old with a TTL of 300 seconds, and is reported fresh.
\<close>

theorem C9_counterexample:
  "get_rate default_settings exact_num sample_lib 86400000000
      (cache_of [(''BTC_USD'', Bare 59337.21), (''ETH_USD'', Bare 3720)]) ''BTC'' ''ETH''
     = Inr \<lparr>from_code = ''BTC'', to_code = ''ETH'', rate = Some (59337.21 / 3720),
            reverse_rate = Some (1 / (59337.21 / 3720)),
            updated_at = Some ''2025-01-01T00:00:00'', source = Some ''calculated'',
            fresh = True\<rparr>
   \<and> parse_datetime sample_lib (StrArg ''2025-01-01T00:00:00'') = Some (Naive 0)
   \<and> \<not> total_seconds sample_lib (86400000000 - 0)
         < real_of_int (rates_ttl_seconds default_settings)"
  by code_simp

text \<open>
  C5. The claim: when the direct pair is absent and the reverse pair TO\_FROM holds a
  non-zero rate \<open>r\<close>, \<^verbatim>\<open>get_rate\<close> returns the rate \<open>1 / r\<close>. The code does so
  when the freshness of the reverse entry can be computed (lemma \<open>get_rate_reverse\<close>):
  with only EUR\_USD = 1.08 cached, \<^verbatim>\<open>get_rate("USD", "EUR")\<close> returns 1 / 1.08. It does
  not for a reverse entry whose \<^verbatim>\<open>updated_at\<close> ends in \<^verbatim>\<open>Z\<close>:
  \<^verbatim>\<open>parse_datetime\<close> turns that text into a timezone-aware datetime, the subtraction
  from the naive \<^verbatim>\<open>datetime.now()\<close> in \<^verbatim>\<open>is_rate_fresh\<close> raises \<^verbatim>\<open>TypeError\<close>,
  and no rate is returned.
\<close>

theorem C5_aware_timestamp_raises:
  "get_rate default_settings exact_num sample_lib 86400000000
      (cache_of [(''EUR_USD'', Bare 1.08)]) ''USD'' ''EUR''
     = Inr \<lparr>from_code = ''USD'', to_code = ''EUR'', rate = Some (1 / 1.08),
            reverse_rate = Some 1.08, updated_at = None, source = Some ''cache'',
            fresh = False\<rparr>
   \<and> get_rate default_settings exact_num sample_lib 86400000000
        (cache_of [(''EUR_USD'', Wrapped (Some 1.08) (Some ''2025-01-01T00:00:00Z'')
                                     (Some ''ParserService''))])
        ''USD'' ''EUR''
     = Inl TypeError"
  by code_simp

text \<open>
  C6. When the direct pair is absent, the reverse pair holds the rate 0 and no path
  through USD exists, \<^verbatim>\<open>get_rate\<close> fails with the rate-unavailable error, whose text
  names both codes; no division by zero is raised.
\<close>

theorem C6_zero_reverse_rate_unavailable:
  assumes v: "validate_currency_code from_code0 = Inr fc" "validate_currency_code to_code0 = Inr tc"
    and reg: "fc \<in> set CURRENCY_REGISTRY" "tc \<in> set CURRENCY_REGISTRY"
    and direct: "map_of (doc_pairs db) (fc @ ''_'' @ tc) = None"
    and rev: "cached_rate (doc_pairs db) (tc @ ''_'' @ fc) = Some z" "is_zero num z"
    and no_path: "fc = ''USD'' \<or> tc = ''USD''
                  \<or> \<not> truthy num (cached_rate (doc_pairs db) (fc @ ''_USD''))
                  \<or> \<not> truthy num (cached_rate (doc_pairs db) (tc @ ''_USD''))"
  shows "get_rate st num lib now db from_code0 to_code0
           = Inl (ApiRequestError (rate_unavailable fc tc))
         \<and> rate_unavailable fc tc
           = ''Rate '' @ fc @ ''->'' @ tc @ '' is unavailable. Try again later.''"
proof -
  have up: "str_upper fc = fc" "str_upper tc = tc"
    using reg registry_codes by blast+
  have ne: "fc \<noteq> tc" using direct rev by (auto simp: cached_rate_def)
  have rv: "\<not> truthy num (cached_rate (doc_pairs db) (tc @ ''_'' @ fc))"
    using rev by (simp add: truthy_def)
  have nd: "\<not> truthy_info num (map_of (doc_pairs db) (fc @ ''_'' @ tc))"
    using direct by (simp add: truthy_info_def)
  have c: "calculate_rate num fc tc (doc_pairs db) = Inr None"
    unfolding calculate_rate_no_direct [OF up ne direct rv]
    using no_path by (auto simp: truthy_def split: option.splits)
  show ?thesis
    unfolding get_rate_via_usd [OF v reg ne nd rv] c
    by (simp add: truthy_def rate_unavailable_def)
qed

theorem C6_witness:
  "get_rate default_settings exact_num sample_lib 0
      (cache_of [(''EUR_USD'', Wrapped (Some 0) (Some ''2025-01-01T00:00:00'') (Some ''x''))])
      ''USD'' ''EUR''
     = Inl (ApiRequestError ''Rate USD->EUR is unavailable. Try again later.'')"
proof -
  define ps :: "real pairs_dict"
    where "ps = [(''EUR_USD'', Wrapped (Some 0) (Some ''2025-01-01T00:00:00'') (Some ''x''))]"
  have v: "validate_currency_code ''USD'' = Inr ''USD''" "validate_currency_code ''EUR'' = Inr ''EUR''"
    by code_simp+
  have reg: "''USD'' \<in> set CURRENCY_REGISTRY" "''EUR'' \<in> set CURRENCY_REGISTRY"
    by (simp_all add: CURRENCY_REGISTRY_def)
  have direct: "map_of (doc_pairs (cache_of ps)) (''USD'' @ ''_'' @ ''EUR'') = None"
    by (simp add: doc_pairs_cache_of ps_def)
  have rev: "cached_rate (doc_pairs (cache_of ps)) (''EUR'' @ ''_'' @ ''USD'') = Some 0"
    "is_zero exact_num 0"
    by (simp_all add: doc_pairs_cache_of ps_def cached_rate_def rate_of_def exact_num_def)
  have np: "''USD'' = ''USD'' \<or> ''EUR'' = ''USD''
                  \<or> \<not> truthy exact_num (cached_rate (doc_pairs (cache_of ps)) (''USD'' @ ''_USD''))
                  \<or> \<not> truthy exact_num (cached_rate (doc_pairs (cache_of ps)) (''EUR'' @ ''_USD''))"
    by simp
  show ?thesis
    using C6_zero_reverse_rate_unavailable [OF v reg direct rev np, of default_settings sample_lib 0]
    by (simp add: ps_def)
qed

text \<open>
  C4, as the code has it. The pivot is always USD, whatever base currency is configured.
  When the direct pair is absent, the reverse pair is not usable and neither code is USD:
  if FROM\_USD and TO\_USD both hold non-zero rates \<open>a\<close> and \<open>b\<close>, the division
  \<^verbatim>\<open>a / b\<close> returns a non-zero number \<open>q\<close> and \<^verbatim>\<open>1.0 / q\<close> returns a number,
  \<^verbatim>\<open>get_rate\<close> returns the rate \<open>q\<close> and reports it fresh whatever the ages of the
  two legs; if the quotient \<open>q\<close> is zero (it underflowed), or if a leg is missing, no
  rate results and \<^verbatim>\<open>get_rate\<close> fails with the rate-unavailable error. For FROM = TO
  the identity rate 1.0 is returned. Nothing is stated about a division that raises.
\<close>

theorem C4_triangulation_through_usd:
  assumes v: "validate_currency_code from_code0 = Inr fc" "validate_currency_code to_code0 = Inr tc"
    and reg: "fc \<in> set CURRENCY_REGISTRY" "tc \<in> set CURRENCY_REGISTRY"
    and direct: "map_of (doc_pairs db) (fc @ ''_'' @ tc) = None"
    and rev: "\<not> truthy num (cached_rate (doc_pairs db) (tc @ ''_'' @ fc))"
    and usd: "fc \<noteq> ''USD''" "tc \<noteq> ''USD''"
  shows "(fc \<noteq> tc
          \<and> cached_rate (doc_pairs db) (fc @ ''_USD'') = Some a \<and> \<not> is_zero num a
          \<and> cached_rate (doc_pairs db) (tc @ ''_USD'') = Some b \<and> \<not> is_zero num b
          \<and> div_nonzero num a b = Inr q \<and> \<not> is_zero num q
          \<and> div_nonzero num (float_one num) q = Inr qi
          \<longrightarrow> get_rate st num lib now db from_code0 to_code0
                = Inr \<lparr>from_code = fc, to_code = tc, rate = Some q, reverse_rate = Some qi,
                       updated_at = last_refresh (get_rates db),
                       source = Some ''calculated'', fresh = True\<rparr>)
       \<and> (fc \<noteq> tc
          \<and> cached_rate (doc_pairs db) (fc @ ''_USD'') = Some a \<and> \<not> is_zero num a
          \<and> cached_rate (doc_pairs db) (tc @ ''_USD'') = Some b \<and> \<not> is_zero num b
          \<and> div_nonzero num a b = Inr q \<and> is_zero num q
          \<longrightarrow> get_rate st num lib now db from_code0 to_code0
                = Inl (ApiRequestError (rate_unavailable fc tc)))
       \<and> (fc = tc
          \<longrightarrow> (\<exists>res. get_rate st num lib now db from_code0 to_code0 = Inr res
                     \<and> rate res = Some (float_one num) \<and> fresh res))
       \<and> (fc \<noteq> tc
          \<and> (map_of (doc_pairs db) (fc @ ''_USD'') = None
               \<or> map_of (doc_pairs db) (tc @ ''_USD'') = None)
          \<longrightarrow> calculate_rate num fc tc (doc_pairs db) = Inr None
              \<and> get_rate st num lib now db from_code0 to_code0
                  = Inl (ApiRequestError (rate_unavailable fc tc)))"
proof -
  have g: "get_currency fc = Inr fc" "get_currency tc = Inr tc"
    and up: "str_upper fc = fc" "str_upper tc = tc"
    using reg registry_codes by blast+
  have nd: "\<not> truthy_info num (map_of (doc_pairs db) (fc @ ''_'' @ tc))"
    using direct by (simp add: truthy_info_def)
  have p1: "get_rate st num lib now db from_code0 to_code0
                = Inr \<lparr>from_code = fc, to_code = tc, rate = Some q, reverse_rate = Some qi,
                       updated_at = last_refresh (get_rates db),
                       source = Some ''calculated'', fresh = True\<rparr>"
    if ne: "fc \<noteq> tc"
      and la: "cached_rate (doc_pairs db) (fc @ ''_USD'') = Some a" and za: "\<not> is_zero num a"
      and lb: "cached_rate (doc_pairs db) (tc @ ''_USD'') = Some b" and zb: "\<not> is_zero num b"
      and dq: "div_nonzero num a b = Inr q" and zq: "\<not> is_zero num q"
      and di: "div_nonzero num (float_one num) q = Inr qi"
  proof -
    have c: "calculate_rate num fc tc (doc_pairs db) = Inr (Some q)"
      unfolding calculate_rate_no_direct [OF up ne direct rev]
      using usd la lb za zb dq by simp
    show ?thesis
      unfolding get_rate_via_usd [OF v reg ne nd rev] c
      using zq di by (simp add: truthy_def inverse_or_none_def truediv_def)
  qed
  have p2: "get_rate st num lib now db from_code0 to_code0
                = Inl (ApiRequestError (rate_unavailable fc tc))"
    if ne: "fc \<noteq> tc"
      and la: "cached_rate (doc_pairs db) (fc @ ''_USD'') = Some a" and za: "\<not> is_zero num a"
      and lb: "cached_rate (doc_pairs db) (tc @ ''_USD'') = Some b" and zb: "\<not> is_zero num b"
      and dq: "div_nonzero num a b = Inr q" and zq: "is_zero num q"
  proof -
    have c: "calculate_rate num fc tc (doc_pairs db) = Inr (Some q)"
      unfolding calculate_rate_no_direct [OF up ne direct rev]
      using usd la lb za zb dq by simp
    show ?thesis
      unfolding get_rate_via_usd [OF v reg ne nd rev] c
      using zq by (simp add: truthy_def)
  qed
  have p3: "\<exists>res. get_rate st num lib now db from_code0 to_code0 = Inr res
                     \<and> rate res = Some (float_one num) \<and> fresh res"
    if "fc = tc"
    unfolding get_rate_def v g sum.case using that by simp
  have p4: "calculate_rate num fc tc (doc_pairs db) = Inr None
              \<and> get_rate st num lib now db from_code0 to_code0
                  = Inl (ApiRequestError (rate_unavailable fc tc))"
    if ne: "fc \<noteq> tc"
      and m: "map_of (doc_pairs db) (fc @ ''_USD'') = None
               \<or> map_of (doc_pairs db) (tc @ ''_USD'') = None"
  proof -
    have c: "calculate_rate num fc tc (doc_pairs db) = Inr None"
      unfolding calculate_rate_no_direct [OF up ne direct rev]
      using m by (auto simp: cached_rate_def split: option.splits)
    show ?thesis
      unfolding get_rate_via_usd [OF v reg ne nd rev] c
      by (simp add: truthy_def)
  qed
  show ?thesis
    using p1 p2 p3 p4 by blast
qed

theorem C4_witness:
  "get_rate default_settings exact_num sample_lib 86400000000
      (cache_of [(''BTC_USD'', Wrapped (Some 59337.21) (Some ''2025-01-01T00:00:00'')
                                   (Some ''ParserService'')),
                 (''ETH_USD'', Bare 3720)])
      ''btc'' ''eth''
     = Inr \<lparr>from_code = ''BTC'', to_code = ''ETH'', rate = Some (59337.21 / 3720),
            reverse_rate = Some (1 / (59337.21 / 3720)),
            updated_at = Some ''2025-01-01T00:00:00'', source = Some ''calculated'',
            fresh = True\<rparr>
   \<and> get_rate default_settings exact_num sample_lib 86400000000
        (cache_of [(''BTC_USD'', Bare 59337.21)]) ''btc'' ''eth''
      = Inl (ApiRequestError (rate_unavailable ''BTC'' ''ETH''))
   \<and> get_rate default_settings underflow_num sample_lib 86400000000
        (cache_of [(''BTC_USD'', Bare (1 / 10 ^ 200)), (''ETH_USD'', Bare (10 ^ 200))])
        ''btc'' ''eth''
      = Inl (ApiRequestError (rate_unavailable ''BTC'' ''ETH''))
   \<and> (\<exists>res. get_rate default_settings exact_num sample_lib 86400000000
              (cache_of []) ''btc'' ''BTC'' = Inr res
            \<and> rate res = Some 1 \<and> fresh res)"
proof -
  define ps :: "real pairs_dict"
    where "ps = [(''BTC_USD'', Wrapped (Some 59337.21) (Some ''2025-01-01T00:00:00'')
                                        (Some ''ParserService'')),
                       (''ETH_USD'', Bare 3720)]"
  define qs :: "real pairs_dict" where "qs = [(''BTC_USD'', Bare 59337.21)]"
  define a :: real where "a = 1 / 10 ^ 200"
  define b :: real where "b = 10 ^ 200"
  define us :: "real pairs_dict" where "us = [(''BTC_USD'', Bare a), (''ETH_USD'', Bare b)]"
  define es :: "real pairs_dict" where "es = []"
  have v: "validate_currency_code ''btc'' = Inr ''BTC''" "validate_currency_code ''eth'' = Inr ''ETH''"
    and vb: "validate_currency_code ''BTC'' = Inr ''BTC''"
    by code_simp+
  have reg: "''BTC'' \<in> set CURRENCY_REGISTRY" "''ETH'' \<in> set CURRENCY_REGISTRY"
    by (simp_all add: CURRENCY_REGISTRY_def)
  have usd: "''BTC'' \<noteq> ''USD''" "''ETH'' \<noteq> ''USD''" by simp_all
  have ne: "''BTC'' \<noteq> ''ETH''" by simp
  have d1: "map_of (doc_pairs (cache_of ps)) (''BTC'' @ ''_'' @ ''ETH'') = None"
    and r1: "\<not> truthy exact_num (cached_rate (doc_pairs (cache_of ps)) (''ETH'' @ ''_'' @ ''BTC''))"
    and l1: "cached_rate (doc_pairs (cache_of ps)) (''BTC'' @ ''_USD'') = Some 59337.21"
            "cached_rate (doc_pairs (cache_of ps)) (''ETH'' @ ''_USD'') = Some 3720"
    by (simp_all add: doc_pairs_cache_of ps_def cached_rate_def truthy_def rate_of_def)
  have d2: "map_of (doc_pairs (cache_of qs)) (''BTC'' @ ''_'' @ ''ETH'') = None"
    and r2: "\<not> truthy exact_num (cached_rate (doc_pairs (cache_of qs)) (''ETH'' @ ''_'' @ ''BTC''))"
    and l2: "map_of (doc_pairs (cache_of qs)) (''ETH'' @ ''_USD'') = None"
    by (simp_all add: doc_pairs_cache_of qs_def cached_rate_def truthy_def rate_of_def)
  have d3: "map_of (doc_pairs (cache_of us)) (''BTC'' @ ''_'' @ ''ETH'') = None"
    and r3: "\<not> truthy underflow_num (cached_rate (doc_pairs (cache_of us)) (''ETH'' @ ''_'' @ ''BTC''))"
    and l3: "cached_rate (doc_pairs (cache_of us)) (''BTC'' @ ''_USD'') = Some a"
            "cached_rate (doc_pairs (cache_of us)) (''ETH'' @ ''_USD'') = Some b"
    by (simp_all add: doc_pairs_cache_of us_def cached_rate_def truthy_def rate_of_def)
  have d4: "map_of (doc_pairs (cache_of es)) (''BTC'' @ ''_'' @ ''BTC'') = None"
    and r4: "\<not> truthy exact_num (cached_rate (doc_pairs (cache_of es)) (''BTC'' @ ''_'' @ ''BTC''))"
    by (simp_all add: doc_pairs_cache_of es_def cached_rate_def truthy_def)
  have nz: "\<not> is_zero exact_num 59337.21" "\<not> is_zero exact_num 3720"
    "\<not> is_zero exact_num (59337.21 / 3720)"
    "div_nonzero exact_num 59337.21 3720 = Inr (59337.21 / 3720)"
    "div_nonzero exact_num (float_one exact_num) (59337.21 / 3720) = Inr (1 / (59337.21 / 3720))"
    by (simp_all add: exact_num_def)
  note uq = underflow_quotient [folded a_def b_def]
  have lr: "last_refresh (get_rates (cache_of ps)) = Some ''2025-01-01T00:00:00''"
    by (simp add: get_rates_def cache_of_def)
  have c1: "get_rate default_settings exact_num sample_lib 86400000000 (cache_of ps) ''btc'' ''eth''
     = Inr \<lparr>from_code = ''BTC'', to_code = ''ETH'', rate = Some (59337.21 / 3720),
            reverse_rate = Some (1 / (59337.21 / 3720)),
            updated_at = Some ''2025-01-01T00:00:00'', source = Some ''calculated'',
            fresh = True\<rparr>"
    using C4_triangulation_through_usd [OF v reg d1 r1 usd, THEN conjunct1, rule_format,
            where a = "59337.21" and b = 3720
            and q = "59337.21 / 3720" and qi = "1 / (59337.21 / 3720)"
            and st = default_settings and lib = sample_lib and now = 86400000000]
      l1 nz ne lr
    by simp
  have c2: "get_rate default_settings exact_num sample_lib 86400000000 (cache_of qs) ''btc'' ''eth''
      = Inl (ApiRequestError (rate_unavailable ''BTC'' ''ETH''))"
    using C4_triangulation_through_usd [OF v reg d2 r2 usd, THEN conjunct2, THEN conjunct2,
            THEN conjunct2, rule_format,
            where st = default_settings and lib = sample_lib and now = 86400000000]
      l2 ne
    by simp
  have c3: "get_rate default_settings underflow_num sample_lib 86400000000 (cache_of us)
              ''btc'' ''eth''
      = Inl (ApiRequestError (rate_unavailable ''BTC'' ''ETH''))"
    by (rule C4_triangulation_through_usd [OF v reg d3 r3 usd, THEN conjunct2, THEN conjunct1,
            rule_format, where a = a and b = b and q = 0])
       (simp only: l3 uq ne simp_thms not_False_eq_True)
  have c4: "\<exists>res. get_rate default_settings exact_num sample_lib 86400000000
              (cache_of es) ''btc'' ''BTC'' = Inr res
            \<and> rate res = Some 1 \<and> fresh res"
    using C4_triangulation_through_usd [OF v(1) vb reg(1) reg(1) d4 r4 usd(1) usd(1),
            THEN conjunct2, THEN conjunct2, THEN conjunct1, rule_format,
            where st = default_settings and lib = sample_lib and now = 86400000000]
    by (simp add: exact_num_def)
  show ?thesis
    using c1 c2 c3 c4 unfolding ps_def qs_def us_def es_def a_def b_def
    by (intro conjI)
qed

text \<open>
  The claim C4 as stated fails: a FROM\_USD leg with rate 0 gives no rate although the
  TO\_USD rate is non-zero; with EUR as the configured base currency the legs BTC\_EUR
  and ETH\_EUR are not used; and a quotient that underflows to zero gives no rate.
\<close>

theorem C4_counterexample:
  "get_rate default_settings exact_num sample_lib 0
      (cache_of [(''BTC_USD'', Bare 0), (''ETH_USD'', Bare 3720)]) ''BTC'' ''ETH''
     = Inl (ApiRequestError (rate_unavailable ''BTC'' ''ETH''))
   \<and> get_rate \<lparr>rates_ttl_seconds = 300, default_base_currency = ''EUR''\<rparr>
        exact_num sample_lib 0
        (cache_of [(''BTC_EUR'', Bare 50000), (''ETH_EUR'', Bare 2500)]) ''BTC'' ''ETH''
     = Inl (ApiRequestError (rate_unavailable ''BTC'' ''ETH''))
   \<and> get_rate default_settings underflow_num sample_lib 0
        (cache_of [(''BTC_USD'', Bare (1 / 10 ^ 200)), (''ETH_USD'', Bare (10 ^ 200))])
        ''BTC'' ''ETH''
     = Inl (ApiRequestError (rate_unavailable ''BTC'' ''ETH''))"
proof -
  have zero_leg: "get_rate default_settings exact_num sample_lib 0
      (cache_of [(''BTC_USD'', Bare 0), (''ETH_USD'', Bare 3720)]) ''BTC'' ''ETH''
     = Inl (ApiRequestError (rate_unavailable ''BTC'' ''ETH''))"
    by code_simp
  have eur_base: "get_rate \<lparr>rates_ttl_seconds = 300, default_base_currency = ''EUR''\<rparr>
        exact_num sample_lib 0
        (cache_of [(''BTC_EUR'', Bare 50000), (''ETH_EUR'', Bare 2500)]) ''BTC'' ''ETH''
     = Inl (ApiRequestError (rate_unavailable ''BTC'' ''ETH''))"
    by code_simp
  have underflow: "get_rate default_settings underflow_num sample_lib 0
        (cache_of [(''BTC_USD'', Bare (1 / 10 ^ 200)), (''ETH_USD'', Bare (10 ^ 200))])
        ''BTC'' ''ETH''
     = Inl (ApiRequestError (rate_unavailable ''BTC'' ''ETH''))"
  proof -
    define a :: real where "a = 1 / 10 ^ 200"
    define b :: real where "b = 10 ^ 200"
    define ps where "ps = [(''BTC_USD'', Bare a), (''ETH_USD'', Bare b)]"
    note uq = underflow_quotient [folded a_def b_def]
    have v: "validate_currency_code ''BTC'' = Inr ''BTC''" "validate_currency_code ''ETH'' = Inr ''ETH''"
      by code_simp+
    have reg: "''BTC'' \<in> set CURRENCY_REGISTRY" "''ETH'' \<in> set CURRENCY_REGISTRY"
      by (simp_all add: CURRENCY_REGISTRY_def)
    have up: "str_upper ''BTC'' = ''BTC''" "str_upper ''ETH'' = ''ETH''"
      using reg registry_codes by blast+
    have ne: "''BTC'' \<noteq> ''ETH''" by simp
    have d: "map_of (doc_pairs (cache_of ps)) (''BTC'' @ ''_'' @ ''ETH'') = None"
      and nd: "\<not> truthy_info underflow_num (map_of (doc_pairs (cache_of ps)) (''BTC'' @ ''_'' @ ''ETH''))"
      and r: "\<not> truthy underflow_num (cached_rate (doc_pairs (cache_of ps)) (''ETH'' @ ''_'' @ ''BTC''))"
      and la: "cached_rate (doc_pairs (cache_of ps)) (''BTC'' @ ''_USD'') = Some a"
      and lb: "cached_rate (doc_pairs (cache_of ps)) (''ETH'' @ ''_USD'') = Some b"
      by (simp_all add: doc_pairs_cache_of ps_def cached_rate_def truthy_def truthy_info_def
            rate_of_def)
    have c: "calculate_rate underflow_num ''BTC'' ''ETH'' (doc_pairs (cache_of ps)) = Inr (Some 0)"
      unfolding calculate_rate_no_direct [OF up ne d r] la lb
      using uq by simp
    have "get_rate default_settings underflow_num sample_lib 0 (cache_of ps) ''BTC'' ''ETH''
            = Inl (ApiRequestError (rate_unavailable ''BTC'' ''ETH''))"
      unfolding get_rate_via_usd [OF v reg ne nd r] c
      using uq by (simp add: truthy_def)
    then show ?thesis unfolding ps_def a_def b_def .
  qed
  show ?thesis
    using zero_leg eur_base underflow by (intro conjI)
qed

section \<open>The storage\<close>

lemma write_json_ok:
  assumes "fst (next_fault d) = NoFault"
  shows "write_json filepath data d
           = (Inr (), filepath (Some data) (snd (next_fault d)))"
proof -
  obtain d1 where n: "next_fault d = (NoFault, d1)"
    using assms by (cases "next_fault d") simp
  have "d1\<lparr>tmp_files := tmp_files d1 + 1, tmp_files := tmp_files d1 + 1 - 1\<rparr> = d1"
    by simp
  then show ?thesis
    by (simp add: write_json_def n Let_def)
qed

lemma write_json_fails:
  assumes "fst (next_fault d) \<noteq> NoFault"
  shows "\<exists>e. write_json filepath data d = (Inl e, snd (next_fault d))"
proof -
  obtain flt d1 where n: "next_fault d = (flt, d1)"
    by (cases "next_fault d")
  have u: "d1\<lparr>tmp_files := tmp_files d1 + 1, tmp_files := tmp_files d1 + 1 - 1\<rparr> = d1"
    by simp
  show ?thesis
    using assms by (cases flt) (simp_all add: write_json_def n Let_def u)
qed

lemma next_fault_files:
  "rates_json (snd (next_fault d)) = rates_json d"
  "exchange_rates_json (snd (next_fault d)) = exchange_rates_json d"
  "tmp_files (snd (next_fault d)) = tmp_files d"
  by (simp_all add: next_fault_def split: list.splits)

text \<open>
  C3. When staging the temporary file fails, \<^verbatim>\<open>_write_json\<close> and with it
  \<^verbatim>\<open>save_rates_cache\<close> raise that exception; the temporary artifact is gone and both
  stored documents are as they were.
\<close>

theorem C3_staging_failure_changes_nothing:
  assumes "faults d = StagingFails e # rest"
  shows "write_json filepath data d = (Inl e, d\<lparr>faults := rest\<rparr>)
       \<and> save_rates_cache current_time rates src d = (Inl e, d\<lparr>faults := rest\<rparr>)
       \<and> rates_json (d\<lparr>faults := rest\<rparr>) = rates_json d
       \<and> exchange_rates_json (d\<lparr>faults := rest\<rparr>) = exchange_rates_json d
       \<and> tmp_files (d\<lparr>faults := rest\<rparr>) = tmp_files d"
proof -
  have n: "next_fault d = (StagingFails e, d\<lparr>faults := rest\<rparr>)"
    using assms by (simp add: next_fault_def)
  have w: "write_json fp dat d = (Inl e, d\<lparr>faults := rest\<rparr>)" for fp :: "'z option \<Rightarrow> _ \<Rightarrow> _" and dat
    by (simp add: write_json_def n Let_def)
  show ?thesis
    by (simp add: w save_rates_cache_def Let_def)
qed

theorem C3_witness:
  "save_rates_cache ''2025-01-02T00:00:00'' [(''BTC_USD'', 60000::real)] ''ParserService''
      ((cache_of [(''EUR_USD'', Bare (1.08::real))])\<lparr>faults := [StagingFails (OSError ''disk full'')]\<rparr>)
     = (Inl (OSError ''disk full''), cache_of [(''EUR_USD'', Bare (1.08::real))])"
proof -
  have f: "faults ((cache_of [(''EUR_USD'', Bare (1.08::real))])\<lparr>faults := [StagingFails (OSError ''disk full'')]\<rparr>)
             = StagingFails (OSError ''disk full'') # []"
    by simp
  show ?thesis
    using C3_staging_failure_changes_nothing [OF f, of rates_file empty_doc
            "''2025-01-02T00:00:00''" "[(''BTC_USD'', 60000::real)]" "''ParserService''"]
    by (simp add: cache_of_def)
qed

text \<open>
  C7, as the code has it. A record whose id is truthy (present and not the empty string)
  and equal to the id of a record of the log is dropped: nothing is written, so the
  history has the same length and the same records.
\<close>

theorem C7_known_truthy_id_is_noop:
  assumes "truthy_id (rec_id rec)"
    and "\<exists>existing \<in> set (get_history d). rec_id existing = rec_id rec"
  shows "add_history_record rec d = (Inr (), d)
       \<and> get_history (snd (add_history_record rec d)) = get_history d"
  using assms by (simp add: add_history_record_def Let_def list_ex_iff)

theorem C7_witness:
  "add_history_record (sample_record (Some ''BTC_USD_t1'') (2::real))
      (history_of [sample_record (Some ''BTC_USD_t1'') (1::real)])
     = (Inr (), history_of [sample_record (Some ''BTC_USD_t1'') (1::real)])"
proof -
  have t: "truthy_id (rec_id (sample_record (Some ''BTC_USD_t1'') (2::real)))"
    by (simp add: truthy_id_def sample_record_def)
  have e: "\<exists>existing \<in> set (get_history (history_of [sample_record (Some ''BTC_USD_t1'') (1::real)])).
             rec_id existing = rec_id (sample_record (Some ''BTC_USD_t1'') (2::real))"
    by (simp add: get_history_def history_of_def sample_record_def)
  show ?thesis
    using C7_known_truthy_id_is_noop [OF t e] by simp
qed

text \<open>
  The claim C7 as stated fails for the empty id: the record is appended although a record
  with an equal id is already in the log.
\<close>

theorem C7_counterexample:
  "rec_id (sample_record (Some '''') (2::real)) = rec_id (sample_record (Some '''') (1::real))
   \<and> get_history (snd (add_history_record (sample_record (Some '''') (2::real))
                          (history_of [sample_record (Some '''') (1::real)])))
     = [sample_record (Some '''') (1::real), sample_record (Some '''') (2::real)]"
  by (simp add: add_history_record_def get_history_def history_of_def sample_record_def
        truthy_id_def write_json_def next_fault_def exchange_rates_file_def Let_def)



lemma add_history_record_history:
  "get_history (snd (add_history_record rec d)) = get_history d
   \<or> (get_history (snd (add_history_record rec d)) = get_history d @ [rec]
      \<and> \<not> (truthy_id (rec_id rec) \<and> rec_id rec \<in> set (map rec_id (get_history d))))"
proof (cases "truthy_id (rec_id rec) \<and> list_ex (\<lambda>existing. rec_id existing = rec_id rec) (get_history d)")
  case True
  then show ?thesis by (simp add: add_history_record_def Let_def)
next
  case False
  then have a: "add_history_record rec d = write_json exchange_rates_file (get_history d @ [rec]) d"
    unfolding add_history_record_def Let_def by (simp only: if_False)
  have nd: "\<not> (truthy_id (rec_id rec) \<and> rec_id rec \<in> set (map rec_id (get_history d)))"
    using False unfolding list_ex_iff by auto
  show ?thesis
  proof (cases "fst (next_fault d) = NoFault")
    case True
    show ?thesis
      unfolding a write_json_ok [OF True] using nd
      by (simp add: exchange_rates_file_def get_history_def)
  next
    case False
    then obtain e where "write_json exchange_rates_file (get_history d @ [rec]) d
                           = (Inl e, snd (next_fault d))"
      using write_json_fails [OF False, of exchange_rates_file "get_history d @ [rec]"] by (elim exE)
    then show ?thesis
      unfolding a by (simp add: get_history_def next_fault_files)
  qed
qed


text \<open>
  C10. A record whose id is absent or the empty string is appended by every write that
  succeeds, also when an equal record is in the log. Duplicate detection thus covers
  truthy ids only: a history whose truthy ids are pairwise distinct keeps that property
  under \<^verbatim>\<open>add_history_record\<close>, for any record and any outcome of the write.
\<close>

theorem C10_falsy_id_is_appended:
  assumes "\<not> truthy_id (rec_id rec)"
  shows "(fst (next_fault d) = NoFault \<longrightarrow>
            fst (add_history_record rec d) = Inr ()
            \<and> get_history (snd (add_history_record rec d)) = get_history d @ [rec])
       \<and> (distinct (truthy_ids (get_history d)) \<longrightarrow>
            distinct (truthy_ids (get_history (snd (add_history_record other d)))))"
proof (intro conjI impI)
  assume ok: "fst (next_fault d) = NoFault"
  have a: "add_history_record rec d = write_json exchange_rates_file (get_history d @ [rec]) d"
    using assms by (simp add: add_history_record_def Let_def)
  show "fst (add_history_record rec d) = Inr ()"
    unfolding a write_json_ok [OF ok] by simp
  show "get_history (snd (add_history_record rec d)) = get_history d @ [rec]"
    unfolding a write_json_ok [OF ok]
    by (simp add: exchange_rates_file_def get_history_def)
next
  assume inv: "distinct (truthy_ids (get_history d))"
  from add_history_record_history [of other d]
  show "distinct (truthy_ids (get_history (snd (add_history_record other d))))"
  proof
    assume "get_history (snd (add_history_record other d)) = get_history d"
    then show ?thesis using inv by simp
  next
    assume "get_history (snd (add_history_record other d)) = get_history d @ [other]
      \<and> \<not> (truthy_id (rec_id other) \<and> rec_id other \<in> set (map rec_id (get_history d)))"
    then show ?thesis using inv by (auto simp: truthy_ids_def)
  qed
qed

theorem C10_witness:
  "get_history (snd (add_history_record (sample_record None (1::real))
                       (history_of [sample_record None (1::real)])))
     = [sample_record None (1::real), sample_record None (1::real)]
   \<and> get_history (snd (add_history_record (sample_record (Some []) (1::real))
                       (history_of [sample_record (Some []) (1::real)])))
     = [sample_record (Some []) (1::real), sample_record (Some []) (1::real)]
   \<and> distinct (truthy_ids (get_history (snd (add_history_record (sample_record (Some ''a'') (2::real))
                                              (history_of [sample_record (Some ''a'') (1::real)])))))"
proof -
  have f: "\<not> truthy_id (rec_id (sample_record None (1::real)))"
          "\<not> truthy_id (rec_id (sample_record (Some []) (1::real)))"
    by (simp_all add: truthy_id_def sample_record_def)
  have n: "fst (next_fault (history_of h)) = NoFault" for h :: "real history_record list"
    by (simp add: next_fault_def history_of_def)
  have h: "get_history (history_of h) = h" for h :: "real history_record list"
    by (simp add: get_history_def history_of_def)
  have i: "distinct (truthy_ids (get_history (history_of [sample_record (Some ''a'') (1::real)])))"
    by (simp add: h truthy_ids_def)
  show ?thesis
    using C10_falsy_id_is_appended [OF f(1), of "history_of [sample_record None (1::real)]"]
      C10_falsy_id_is_appended [OF f(2), of "history_of [sample_record (Some []) (1::real)]"]
      C10_falsy_id_is_appended [OF f(1), of "history_of [sample_record (Some ''a'') (1::real)]"
        "sample_record (Some ''a'') (2::real)"]
      n h i
    by simp
qed

lemma fold_update_lookup:
  "distinct (map fst rates) \<Longrightarrow>
   map_of (fold (\<lambda>(k, r) ps. AList.update k (f r) ps) rates ps0) k'
     = (case map_of rates k' of Some r \<Rightarrow> Some (f r) | None \<Rightarrow> map_of ps0 k')"
proof (induction rates arbitrary: ps0)
  case Nil
  then show ?case by simp
next
  case (Cons p rates)
  obtain k r where p: "p = (k, r)" by (cases p)
  have nk: "map_of rates k = None"
    using Cons.prems by (simp add: p map_of_eq_None_iff)
  have d: "distinct (map fst rates)" using Cons.prems by simp
  note ih = Cons.IH [OF d, of "AList.update k (f r) ps0"]
  show ?case
  proof (cases "k' = k")
    case True
    have "map_of (fold (\<lambda>(k, r) ps. AList.update k (f r) ps) rates (AList.update k (f r) ps0)) k
            = Some (f r)"
      using ih nk unfolding True by (simp add: update_conv')
    then show ?thesis by (simp add: p True)
  next
    case False
    have "map_of (AList.update k (f r) ps0) k' = map_of ps0 k'"
      using False by (simp add: update_conv')
    then show ?thesis
      using ih False by (cases "map_of rates k'") (simp_all add: p)
  qed
qed

text \<open>
  C8. A successful \<^verbatim>\<open>save_rates_cache\<close> merges: every key of the new rates holds the
  new rate with the current timestamp and the source, every other key holds the entry
  it held before, and \<^verbatim>\<open>last_refresh\<close> is the current timestamp.
\<close>

theorem C8_save_rates_cache_merges:
  assumes "distinct (map fst rates)" and "fst (next_fault d) = NoFault"
  shows "fst (save_rates_cache current_time rates src d) = Inr ()
       \<and> (\<forall>key. map_of (doc_pairs (snd (save_rates_cache current_time rates src d))) key
                 = (case map_of rates key of
                      Some r \<Rightarrow> Some (Wrapped (Some r) (Some current_time) (Some src))
                    | None \<Rightarrow> map_of (doc_pairs d) key))
       \<and> last_refresh (get_rates (snd (save_rates_cache current_time rates src d)))
           = Some current_time"
proof -
  define merged where "merged = fold (\<lambda>(pair, r) ps.
                      AList.update pair (Wrapped (Some r) (Some current_time) (Some src)) ps)
                    rates (doc_pairs d)"
  define doc where "doc = (get_rates_cache d)\<lparr>pairs := Some merged,
                       last_refresh := Some current_time, doc_source := Some src\<rparr>"
  have old: "(case pairs (get_rates_cache d) of Some p \<Rightarrow> p | None \<Rightarrow> []) = doc_pairs d"
    by (simp add: doc_pairs_def get_rates_def get_rates_cache_def)
  have s: "save_rates_cache current_time rates src d
             = (Inr (), rates_file (Some doc) (snd (next_fault d)))"
    unfolding save_rates_cache_def Let_def old write_json_ok [OF assms(2)] doc_def merged_def
    by (rule refl)
  have dp: "doc_pairs (rates_file (Some doc) (snd (next_fault d))) = merged"
    by (simp add: doc_pairs_def get_rates_def rates_file_def doc_def)
  have lr: "last_refresh (get_rates (rates_file (Some doc) (snd (next_fault d)))) = Some current_time"
    by (simp add: get_rates_def rates_file_def doc_def)
  have m: "map_of merged key
             = (case map_of rates key of
                  Some r \<Rightarrow> Some (Wrapped (Some r) (Some current_time) (Some src))
                | None \<Rightarrow> map_of (doc_pairs d) key)" for key
    unfolding merged_def
    by (rule fold_update_lookup [OF assms(1),
          where f = "\<lambda>r. Wrapped (Some r) (Some current_time) (Some src)"])
  show ?thesis
    unfolding s using m by (simp add: dp lr)
qed

theorem C8_witness:
  "map_of (doc_pairs (snd (save_rates_cache ''2025-01-02T00:00:00'' [(''BTC_USD'', 60000::real)]
             ''ParserService'' (cache_of [(''EUR_USD'', Bare (1.08::real)), (''BTC_USD'', Bare 1)]))))
          ''EUR_USD'' = Some (Bare (1.08::real))
   \<and> map_of (doc_pairs (snd (save_rates_cache ''2025-01-02T00:00:00'' [(''BTC_USD'', 60000::real)]
             ''ParserService'' (cache_of [(''EUR_USD'', Bare (1.08::real)), (''BTC_USD'', Bare 1)]))))
          ''BTC_USD''
       = Some (Wrapped (Some 60000) (Some ''2025-01-02T00:00:00'') (Some ''ParserService''))"
proof -
  define d where "d = cache_of [(''EUR_USD'', Bare (1.08::real)), (''BTC_USD'', Bare 1)]"
  have dist: "distinct (map fst [(''BTC_USD'', 60000::real)])" by simp
  have ok: "fst (next_fault d) = NoFault"
    by (simp add: d_def next_fault_def cache_of_def)
  have old: "map_of (doc_pairs d) ''EUR_USD'' = Some (Bare (1.08::real))"
    by (simp add: d_def doc_pairs_cache_of)
  show ?thesis
    using C8_save_rates_cache_merges [OF dist ok, of "''2025-01-02T00:00:00''" "''ParserService''"]
      old
    unfolding d_def by simp
qed


section \<open>The update cycle\<close>

lemma poll_clients_facts:
  "success (fst (poll_clients f cs (res, ar)))
     = (if list_ex (\<lambda>c. selected f c \<and> fails c) cs then PyFalse else success res)
   \<and> length (errors (fst (poll_clients f cs (res, ar))))
     = length (errors res) + length (filter (\<lambda>c. selected f c \<and> fails c) cs)
   \<and> total_rates (fst (poll_clients f cs (res, ar))) = total_rates res"
proof (induction cs arbitrary: res ar)
  case Nil
  then show ?case by simp
next
  case (Cons c cs)
  show ?case
  proof (cases "selected f c")
    case False
    then have "poll_clients f (c # cs) (res, ar) = poll_clients f cs (res, ar)"
      by (auto simp: selected_def Let_def split: option.splits)
    then show ?thesis using Cons.IH [of res ar] False by simp
  next
    case True
    then have sk: "\<not> (case f of None \<Rightarrow> False
                     | Some ss \<Rightarrow> ss \<noteq> [] \<and> normalize (source_name c) \<notin> set (map normalize ss))"
      by (auto simp: selected_def split: option.splits)
    show ?thesis
    proof (cases "fetch_rates c")
      case (Returns rates)
      have "poll_clients f (c # cs) (res, ar)
              = poll_clients f cs
                  (res\<lparr>sources := AList.update (source_name c)
                                        (OK (length rates) (map fst rates)) (sources res)\<rparr>,
                   dict_update ar rates)"
        using sk by (simp add: Let_def Returns)
      then show ?thesis
        using Cons.IH [of "res\<lparr>sources := AList.update (source_name c)
                                        (OK (length rates) (map fst rates)) (sources res)\<rparr>"
                          "dict_update ar rates"] True
        by (simp add: fails_def Returns)
    next
      case (RaisesApiRequestError reason)
      define res' where "res' = res\<lparr>sources := AList.update (source_name c)
                                  (ERROR (api_error_message reason)) (sources res),
                           errors := errors res @ [source_name c @ '': '' @ api_error_message reason],
                           success := PyFalse\<rparr>"
      have "poll_clients f (c # cs) (res, ar) = poll_clients f cs (res', ar)"
        using sk by (simp add: Let_def RaisesApiRequestError res'_def)
      then show ?thesis
        using Cons.IH [of res' ar] True
        by (simp add: fails_def RaisesApiRequestError res'_def)
    next
      case (RaisesException msg)
      define res' where "res' = res\<lparr>sources := AList.update (source_name c)
                                  (ERROR (''Unexpected error: '' @ msg)) (sources res),
                           errors := errors res @ [source_name c @ '': '' @ ''Unexpected error: '' @ msg],
                           success := PyFalse\<rparr>"
      have "poll_clients f (c # cs) (res, ar) = poll_clients f cs (res', ar)"
        using sk by (simp add: Let_def RaisesException res'_def)
      then show ?thesis
        using Cons.IH [of res' ar] True
        by (simp add: fails_def RaisesException res'_def)
    qed
  qed
qed

lemma dict_update_keys:
  "fst ` set (dict_update d rates) = fst ` set d \<union> fst ` set rates
   \<and> (distinct (map fst d) \<longrightarrow> distinct (map fst (dict_update d rates)))"
proof (induction rates arbitrary: d)
  case Nil
  then show ?case by (simp add: dict_update_def)
next
  case (Cons p rates)
  obtain k v where p: "p = (k, v)" by (cases p)
  have e: "dict_update d (p # rates) = dict_update (AList.update k v d) rates"
    by (simp add: dict_update_def p)
  show ?case
    unfolding e using Cons.IH [of "AList.update k v d"]
    by (auto simp: p dom_update distinct_update)
qed

lemma poll_clients_keys:
  "fst ` set (snd (poll_clients f cs (res, ar))) = fst ` set ar \<union> set (produced_keys f cs)
   \<and> (distinct (map fst ar) \<longrightarrow> distinct (map fst (snd (poll_clients f cs (res, ar)))))"
proof (induction cs arbitrary: res ar)
  case Nil
  then show ?case by (simp add: produced_keys_def)
next
  case (Cons c cs)
  have pk: "produced_keys f (c # cs)
              = (case fetch_rates c of
                   Returns rates \<Rightarrow> if selected f c then map fst rates else []
                 | _ \<Rightarrow> []) @ produced_keys f cs"
    by (simp add: produced_keys_def)
  show ?case
  proof (cases "selected f c")
    case False
    then have "poll_clients f (c # cs) (res, ar) = poll_clients f cs (res, ar)"
      by (auto simp: selected_def Let_def split: option.splits)
    then show ?thesis using Cons.IH [of res ar] False
      by (simp add: pk split: fetch_outcome.splits)
  next
    case True
    then have sk: "\<not> (case f of None \<Rightarrow> False
                     | Some ss \<Rightarrow> ss \<noteq> [] \<and> normalize (source_name c) \<notin> set (map normalize ss))"
      by (auto simp: selected_def split: option.splits)
    show ?thesis
    proof (cases "fetch_rates c")
      case (Returns rates)
      have "poll_clients f (c # cs) (res, ar)
              = poll_clients f cs
                  (res\<lparr>sources := AList.update (source_name c)
                                        (OK (length rates) (map fst rates)) (sources res)\<rparr>,
                   dict_update ar rates)"
        using sk by (simp add: Let_def Returns)
      then show ?thesis
        using Cons.IH [of "res\<lparr>sources := AList.update (source_name c)
                                        (OK (length rates) (map fst rates)) (sources res)\<rparr>"
                          "dict_update ar rates"] True dict_update_keys [of ar rates]
        by (auto simp: pk Returns)
    next
      case (RaisesApiRequestError reason)
      define res' where "res' = res\<lparr>sources := AList.update (source_name c)
                                  (ERROR (api_error_message reason)) (sources res),
                           errors := errors res @ [source_name c @ '': '' @ api_error_message reason],
                           success := PyFalse\<rparr>"
      have "poll_clients f (c # cs) (res, ar) = poll_clients f cs (res', ar)"
        using sk by (simp add: Let_def RaisesApiRequestError res'_def)
      then show ?thesis
        using Cons.IH [of res' ar] by (simp add: pk RaisesApiRequestError)
    next
      case (RaisesException msg)
      define res' where "res' = res\<lparr>sources := AList.update (source_name c)
                                  (ERROR (''Unexpected error: '' @ msg)) (sources res),
                           errors := errors res @ [source_name c @ '': '' @ ''Unexpected error: '' @ msg],
                           success := PyFalse\<rparr>"
      have "poll_clients f (c # cs) (res, ar) = poll_clients f cs (res', ar)"
        using sk by (simp add: Let_def RaisesException res'_def)
      then show ?thesis
        using Cons.IH [of res' ar] by (simp add: pk RaisesException)
    qed
  qed
qed

lemma poll_clients_length:
  "length (snd (poll_clients f cs (res, []))) = length (remdups (produced_keys f cs))"
proof -
  let ?ar = "snd (poll_clients f cs (res, []))"
  have k: "set (map fst ?ar) = set (produced_keys f cs)" and d: "distinct (map fst ?ar)"
    using poll_clients_keys [of f cs res "[]"] by simp_all
  have "length ?ar = length (map fst ?ar)" by simp
  also have "\<dots> = card (set (map fst ?ar))" using d by (simp only: distinct_card)
  also have "\<dots> = length (remdups (produced_keys f cs))"
    unfolding k by (simp add: length_remdups_card_conv)
  finally show ?thesis .
qed

lemma poll_clients_Nil_iff:
  "snd (poll_clients f cs (res, [])) = [] \<longleftrightarrow> produced_keys f cs = []"
proof -
  have "set (map fst (snd (poll_clients f cs (res, [])))) = set (produced_keys f cs)"
    using poll_clients_keys [of f cs res "[]"] by simp
  then show ?thesis
    by (metis list.map_disc_iff set_empty)
qed

lemma save_rates_cache_no_fault:
  assumes "faults d = []"
  shows "\<exists>d'. save_rates_cache ct rates src d = (Inr (), d') \<and> faults d' = []"
proof -
  have n: "next_fault d = (NoFault, d)" using assms by (simp add: next_fault_def)
  then have ok: "fst (next_fault d) = NoFault" by simp
  show ?thesis
    unfolding save_rates_cache_def Let_def write_json_ok [OF ok]
    using assms by (simp add: n rates_file_def)
qed

lemma add_history_record_no_fault:
  assumes "faults d = []"
  shows "\<exists>d'. add_history_record rec d = (Inr (), d') \<and> faults d' = []"
proof -
  have n: "next_fault d = (NoFault, d)" using assms by (simp add: next_fault_def)
  then have ok: "fst (next_fault d) = NoFault" by simp
  show ?thesis
    unfolding add_history_record_def Let_def write_json_ok [OF ok]
    using assms by (simp add: n exchange_rates_file_def)
qed

lemma history_loop_no_fault:
  "faults d = [] \<Longrightarrow> \<exists>d'. history_loop ts src m rates d = (Inr (), d') \<and> faults d' = []"
proof (induction rates arbitrary: d)
  case Nil
  then show ?case by simp
next
  case (Cons p rates)
  obtain pair r where p: "p = (pair, r)" by (cases p)
  define parts where "parts = str_split (CHR ''_'') pair"
  show ?case
  proof (cases "\<exists>a b. parts = [a, b]")
    case True
    then obtain a b where ab: "parts = [a, b]" by blast
    define rec where "rec = \<lparr>rec_id = Some (pair @ ''_'' @ ts), from_currency = a, to_currency = b,
                   rec_rate = r, timestamp = ts, rec_source = src,
                   meta = (case m of None \<Rightarrow> None | Some kv \<Rightarrow> if kv \<noteq> [] then Some kv else None)\<rparr>"
    obtain d1 where d1: "add_history_record rec d = (Inr (), d1)" "faults d1 = []"
      using add_history_record_no_fault [OF Cons.prems, of rec] by blast
    have "history_loop ts src m ((pair, r) # rates) d
            = (case add_history_record rec d of
                 (Inl e, d') \<Rightarrow> (Inl e, d')
               | (Inr u, d') \<Rightarrow> history_loop ts src m rates d')"
      by (subst history_loop.simps(2)) (simp only: parts_def[symmetric] ab rec_def list.case)
    then have "history_loop ts src m (p # rates) d = history_loop ts src m rates d1"
      unfolding p d1(1) by simp
    then show ?thesis using Cons.IH [OF d1(2)] by simp
  next
    case False
    then have "history_loop ts src m (p # rates) d = history_loop ts src m rates d"
      by (auto simp: p parts_def[symmetric] split: list.splits)
    then show ?thesis using Cons.IH [OF Cons.prems] by simp
  qed
qed

lemma run_update_returns:
  assumes "fst (run_update lib clk cs f st) = Inr res"
  shows "success res
           = (if snd (poll_clients f cs (results0 lib clk, [])) \<noteq> []
                 \<and> errors (fst (poll_clients f cs (results0 lib clk, []))) \<noteq> []
              then Partial else success (fst (poll_clients f cs (results0 lib clk, []))))
       \<and> errors res = errors (fst (poll_clients f cs (results0 lib clk, [])))
       \<and> total_rates res = length (snd (poll_clients f cs (results0 lib clk, [])))"
proof -
  define polled where "polled = poll_clients f cs (results0 lib clk, [])"
  define sc where "sc = save_rates_cache (cache_now clk) (snd polled) ''ParserService'' st"
  define sh where "sh = (\<lambda>d1. save_rates_to_history (history_utcnow clk) (snd polled)
                            ''ParserService'' None d1)"
  have t0: "total_rates (fst polled) = 0"
    using poll_clients_facts [of f cs "results0 lib clk" "[]"]
    by (simp add: polled_def results0_def)
  show ?thesis
    using assms t0
    unfolding run_update_def Let_def results0_def[symmetric] polled_def[symmetric]
      sc_def[symmetric] sh_def[symmetric]
    by (auto split: if_splits prod.splits sum.splits)
qed

lemma run_update_no_fault:
  assumes "faults st = []"
  shows "\<exists>res. fst (run_update lib clk cs f st) = Inr res"
proof -
  define polled where "polled = poll_clients f cs (results0 lib clk, [])"
  obtain d1 where d1: "save_rates_cache (cache_now clk) (snd polled) ''ParserService'' st
                         = (Inr (), d1)" "faults d1 = []"
    using save_rates_cache_no_fault [OF assms] by blast
  obtain d2 where d2: "save_rates_to_history (history_utcnow clk) (snd polled)
                            ''ParserService'' None d1 = (Inr (), d2)"
    using history_loop_no_fault [OF d1(2)] unfolding save_rates_to_history_def by blast
  show ?thesis
    unfolding run_update_def Let_def results0_def[symmetric] polled_def[symmetric]
    by (simp add: d1(1) d2)
qed

lemma run_update_no_rates:
  assumes "snd (poll_clients f cs (results0 lib clk, [])) = []"
  shows "snd (run_update lib clk cs f st) = st \<and> (\<exists>res. fst (run_update lib clk cs f st) = Inr res)"
  unfolding run_update_def Let_def results0_def[symmetric] assms
  by simp

text \<open>
  C1, as the code has it. A cycle whose writes do not fail returns a result. In every
  result \<^verbatim>\<open>success\<close> is \<^verbatim>\<open>True\<close> when no selected client raised, whether or not a
  rate was produced; it is \<^verbatim>\<open>"partial"\<close> when a selected client raised and at least
  one rate was produced; it is \<^verbatim>\<open>False\<close> when a selected client raised and no rate
  was produced. \<^verbatim>\<open>errors\<close> has one entry for each selected client that raised, and
  \<^verbatim>\<open>total_rates\<close> counts the distinct pair keys returned.
\<close>

theorem C1_cycle_classification:
  "(faults storage = [] \<longrightarrow> (\<exists>res. fst (run_update lib clk clients f storage) = Inr res))
   \<and> (\<forall>res. fst (run_update lib clk clients f storage) = Inr res \<longrightarrow>
         success res
           = (if \<not> list_ex (\<lambda>c. selected f c \<and> fails c) clients then PyTrue
              else if produced_keys f clients \<noteq> [] then Partial else PyFalse)
         \<and> length (errors res) = length (filter (\<lambda>c. selected f c \<and> fails c) clients)
         \<and> total_rates res = length (remdups (produced_keys f clients)))"
proof (intro conjI impI allI)
  assume "faults storage = []"
  then show "\<exists>res. fst (run_update lib clk clients f storage) = Inr res"
    by (rule run_update_no_fault)
next
  fix res
  assume r: "fst (run_update lib clk clients f storage) = Inr res"
  define polled where "polled = poll_clients f clients (results0 lib clk, [])"
  note ret = run_update_returns [OF r, folded polled_def]
  note facts = poll_clients_facts [of f clients "results0 lib clk" "[]", folded polled_def]
  have s0: "success (fst polled)
              = (if list_ex (\<lambda>c. selected f c \<and> fails c) clients then PyFalse else PyTrue)"
    using facts by (simp add: results0_def)
  have len: "length (errors (fst polled))
               = length (filter (\<lambda>c. selected f c \<and> fails c) clients)"
    using facts by (simp add: results0_def)
  have ex: "errors (fst polled) \<noteq> [] \<longleftrightarrow> list_ex (\<lambda>c. selected f c \<and> fails c) clients"
  proof -
    have "errors (fst polled) \<noteq> [] \<longleftrightarrow> filter (\<lambda>c. selected f c \<and> fails c) clients \<noteq> []"
      using len by (metis length_0_conv)
    then show ?thesis by (simp add: filter_empty_conv list_ex_iff)
  qed
  have nil: "snd polled = [] \<longleftrightarrow> produced_keys f clients = []"
    unfolding polled_def by (rule poll_clients_Nil_iff)
  show "success res
           = (if \<not> list_ex (\<lambda>c. selected f c \<and> fails c) clients then PyTrue
              else if produced_keys f clients \<noteq> [] then Partial else PyFalse)"
    using ret s0 ex nil by simp
  show "length (errors res) = length (filter (\<lambda>c. selected f c \<and> fails c) clients)"
    using ret len by simp
  show "total_rates res = length (remdups (produced_keys f clients))"
    using ret poll_clients_length [of f clients "results0 lib clk"]
    by (simp add: polled_def)
qed

theorem C1_witness:
  "\<exists>res. fst (run_update sample_lib clock0 [failing_client, fiat_client] None (history_of []))
            = Inr res
         \<and> success res = Partial \<and> length (errors res) = 1 \<and> total_rates res = 5"
proof -
  have nf: "faults (history_of []) = []" by (simp add: history_of_def)
  have ex: "list_ex (\<lambda>c. selected None c \<and> fails c) [failing_client, fiat_client]"
    by (simp add: selected_def fails_def failing_client_def)
  have fl: "filter (\<lambda>c. selected None c \<and> fails c) [failing_client, fiat_client] = [failing_client]"
    by (simp add: selected_def fails_def failing_client_def fiat_client_def)
  have pk: "produced_keys None [failing_client, fiat_client]
              = [''EUR_USD'', ''GBP_USD'', ''RUB_USD'', ''JPY_USD'', ''CNY_USD'']"
    by (simp add: produced_keys_def selected_def failing_client_def fiat_client_def)
  show ?thesis
    using C1_cycle_classification [of "history_of []" sample_lib clock0
            "[failing_client, fiat_client]" None] nf ex
    unfolding fl pk by auto
qed

text \<open>
  The claim C1 as stated fails: a cycle in which the only client returns an empty map,
  and a cycle whose filter selects no client, produce no rate and report
  \<^verbatim>\<open>success = True\<close>, not a failure.
\<close>

theorem C1_counterexample:
  "(case fst (run_update sample_lib clock0 [empty_client] None (history_of [])) of
      Inr res \<Rightarrow> success res = PyTrue \<and> total_rates res = 0 \<and> errors res = []
    | Inl e \<Rightarrow> False)
   \<and> (case fst (run_update sample_lib clock0 [fiat_client] (Some [''coingecko''])
                  (history_of [])) of
      Inr res \<Rightarrow> success res = PyTrue \<and> total_rates res = 0 \<and> sources res = []
    | Inl e \<Rightarrow> False)"
  by code_simp

text \<open>
  C2. When no selected client returns a rate, \<^verbatim>\<open>run_update\<close> returns its report and
  leaves the data directory exactly as it was: no write is attempted.
\<close>

theorem C2_no_rates_no_write:
  assumes "\<forall>c \<in> set clients. selected f c \<longrightarrow> (\<forall>rates. fetch_rates c = Returns rates \<longrightarrow> rates = [])"
  shows "snd (run_update lib clk clients f storage) = storage
       \<and> (\<exists>res. fst (run_update lib clk clients f storage) = Inr res \<and> total_rates res = 0)"
proof -
  have pk: "produced_keys f clients = []"
    using assms by (auto simp: produced_keys_def split: fetch_outcome.splits)
  then have nil: "snd (poll_clients f clients (results0 lib clk, [])) = []"
    by (simp add: poll_clients_Nil_iff)
  obtain res where r: "fst (run_update lib clk clients f storage) = Inr res"
    using run_update_no_rates [OF nil] by blast
  have "total_rates res = 0"
    using run_update_returns [OF r] nil by simp
  then show ?thesis
    using run_update_no_rates [OF nil, of storage] r by simp
qed

theorem C2_witness:
  "snd (run_update sample_lib clock0
          [failing_client, \<lparr>source_name = ''ExchangeRate-API'', fetch_rates = RaisesException ''boom''\<rparr>]
          None
          ((cache_of [(''EUR_USD'', Bare (1.08::real))])\<lparr>faults := [StagingFails (OSError ''disk full'')]\<rparr>))
     = (cache_of [(''EUR_USD'', Bare (1.08::real))])\<lparr>faults := [StagingFails (OSError ''disk full'')]\<rparr>"
proof -
  have h: "\<forall>c \<in> set [failing_client,
                       \<lparr>source_name = ''ExchangeRate-API'', fetch_rates = RaisesException ''boom''\<rparr>].
             selected None c \<longrightarrow> (\<forall>rates. fetch_rates c = Returns rates \<longrightarrow> rates = [])"
    by (simp add: failing_client_def)
  show ?thesis
    using C2_no_rates_no_write [OF h] by simp
qed

end
